theory Spec2Isabelle
  imports Complex_Main "HOL-Library.Signed_Division"
begin

section \<open>azure-devops-exporter: the startup sequence of main.go\<close>

text \<open>
  The development embeds \<^verbatim>\<open>main.go\<close>: \<^verbatim>\<open>initArgparser\<close>, \<^verbatim>\<open>initAzureDevOpsConnection\<close>,
  \<^verbatim>\<open>initMetricCollector\<close> (with its closure \<^verbatim>\<open>startCollector\<close>), \<^verbatim>\<open>startHttpServer\<close> and
  \<^verbatim>\<open>main\<close>. The process is a record of its global variables and of what it has printed;
  every \<^verbatim>\<open>os.Exit\<close>, \<^verbatim>\<open>logger.Fatal\<close> and \<^verbatim>\<open>panic\<close> is a left result carrying the state
  the process died in. Of the \<^verbatim>\<open>Info\<close> log lines only "collector disabled" is kept, being
  all that its branch does; the others change nothing that is read again. What the operating system and the imported libraries answer
  (argument parsing, files, environment, the collector library, the HTTP listener) is
  one record of inputs, \<open>world\<close>.
\<close>

subsection \<open>Constants\<close>

definition Author :: string where
  "Author = ''webdevops.io''"

definition cacheTag :: string where
  "cacheTag = ''v1''"

definition gitTag :: string where
  "gitTag = ''<unknown>''"

subsection \<open>time.Duration\<close>

text \<open>
  A \<^verbatim>\<open>time.Duration\<close> is a count of nanoseconds (an int64; no arithmetic is done on it
  here, so no wrap-around can occur). \<^verbatim>\<open>Seconds()\<close> is, in the Go library,
  \<^verbatim>\<open>sec := d / Second; nsec := d % Second; return float64(sec) + float64(nsec)/1e9\<close>
  with Go's truncating division. Both conversions are exact and the two summands never
  have opposite signs, so the rounded float has the sign of the exact rational, which
  is all that \<^verbatim>\<open>Seconds() > 0\<close> reads.
\<close>

type_synonym Duration = int

definition Second :: Duration where
  "Second = 1000000000"

definition Seconds :: "Duration \<Rightarrow> rat" where
  "Seconds d = of_int (d sdiv Second) + of_int (d smod Second) / 1000000000"

subsection \<open>config.Opts, as far as main.go reads it\<close>

text \<open>
  The declaration of \<^verbatim>\<open>config.Opts\<close> is in another package; the records list the
  fields main.go names, with Go's types: a \<^verbatim>\<open>*T\<close> that may be nil is an option, a
  slice is a list (a nil slice and an empty one both make the loop over it run zero
  times).
\<close>

record AzureOpts =
  TenantId :: string
  ClientId :: string
  ClientSecret :: string

record AzureDevopsOpts =
  Url :: "string option"
  AccessToken :: string
  AccessTokenFile :: "string option"
  Organisation :: string
  ApiVersion :: string
  QueriesWithProjects :: "string list"

record ScrapeOpts =
  Time :: Duration
  TimeProjects :: "Duration option"
  TimeRepository :: "Duration option"
  TimePullRequest :: "Duration option"
  TimeBuild :: "Duration option"
  TimeRelease :: "Duration option"
  TimeDeployment :: "Duration option"
  TimeStats :: "Duration option"
  TimeResourceUsage :: "Duration option"
  TimeQuery :: "Duration option"
  TimeAgentPools :: "Duration option"

record StatsOpts =
  SummaryMaxAge :: "Duration option"

record RequestOpts =
  ConcurrencyLimit :: int
  Retries :: int

record LimitOpts =
  Project :: int
  BuildsPerProject :: int
  BuildsPerDefinition :: int
  ReleasesPerDefinition :: int
  DeploymentPerDefinition :: int
  ReleaseDefinitionsPerProject :: int
  ReleasesPerProject :: int

record ServerOpts =
  Bind :: string
  ReadTimeout :: Duration
  WriteTimeout :: Duration

record Opts =
  Azure :: AzureOpts
  AzureDevops :: AzureDevopsOpts
  Scrape :: ScrapeOpts
  Stats :: StatsOpts
  Request :: RequestOpts
  Limit :: LimitOpts
  Server :: ServerOpts

text \<open>The zero value of the global \<^verbatim>\<open>opts\<close>, before \<^verbatim>\<open>Parse\<close> fills it.\<close>

definition zeroOpts :: Opts where
  "zeroOpts =
     \<lparr>Azure = \<lparr>TenantId = [], ClientId = [], ClientSecret = []\<rparr>,
      AzureDevops = \<lparr>Url = None, AccessToken = [], AccessTokenFile = None,
        Organisation = [], ApiVersion = [], QueriesWithProjects = []\<rparr>,
      Scrape = \<lparr>Time = 0, TimeProjects = None, TimeRepository = None,
        TimePullRequest = None, TimeBuild = None, TimeRelease = None,
        TimeDeployment = None, TimeStats = None, TimeResourceUsage = None,
        TimeQuery = None, TimeAgentPools = None\<rparr>,
      Stats = \<lparr>SummaryMaxAge = None\<rparr>,
      Request = \<lparr>ConcurrencyLimit = 0, Retries = 0\<rparr>,
      Limit = \<lparr>Project = 0, BuildsPerProject = 0, BuildsPerDefinition = 0,
        ReleasesPerDefinition = 0, DeploymentPerDefinition = 0,
        ReleaseDefinitionsPerProject = 0, ReleasesPerProject = 0\<rparr>,
      Server = \<lparr>Bind = [], ReadTimeout = 0, WriteTimeout = 0\<rparr>\<rparr>"

subsection \<open>The API client, as far as main.go configures it\<close>

text \<open>
  Modelled from the spec: the type \<^verbatim>\<open>AzureDevopsClient\<close> and its setters are in the
  package azure-devops-client. The record holds what main.go stores through them; the
  authentication mode is the spec's "exactly one of two modes": \<^verbatim>\<open>SetAccessToken\<close>
  selects the static token, \<^verbatim>\<open>UseAzAuth\<close> the service-principal token acquisition,
  and a client just made by \<^verbatim>\<open>NewAzureDevopsClient\<close> has neither. \<open>HostUrl = None\<close>
  is the constructor's own default.
\<close>

datatype auth_mode = NoAuth | AccessTokenAuth string | AzAuth

record DevopsClient =
  HostUrl :: "string option"
  organization :: string
  auth :: auth_mode
  apiVersion :: string
  concurrency :: int
  retries :: int
  userAgent :: string
  LimitProject :: int
  LimitBuildsPerProject :: int
  LimitBuildsPerDefinition :: int
  LimitReleasesPerDefinition :: int
  LimitDeploymentPerDefinition :: int
  LimitReleaseDefinitionsPerProject :: int
  LimitReleasesPerProject :: int

definition NewAzureDevopsClient :: DevopsClient where
  "NewAzureDevopsClient =
     \<lparr>HostUrl = None, organization = [], auth = NoAuth, apiVersion = [],
      concurrency = 0, retries = 0, userAgent = [],
      LimitProject = 0, LimitBuildsPerProject = 0, LimitBuildsPerDefinition = 0,
      LimitReleasesPerDefinition = 0, LimitDeploymentPerDefinition = 0,
      LimitReleaseDefinitionsPerProject = 0, LimitReleasesPerProject = 0\<rparr>"

subsection \<open>Collectors and the HTTP server\<close>

datatype processor =
    MetricsCollectorProject
  | MetricsCollectorAgentPool
  | MetricsCollectorLatestBuild
  | MetricsCollectorRepository
  | MetricsCollectorPullRequest
  | MetricsCollectorBuild
  | MetricsCollectorRelease
  | MetricsCollectorDeployment
  | MetricsCollectorStats
  | MetricsCollectorResourceUsage
  | MetricsCollectorQuery

text \<open>
  A collector as \<^verbatim>\<open>startCollector\<close> configures it before \<^verbatim>\<open>Start\<close>: the arguments of
  \<^verbatim>\<open>collector.New\<close>, \<^verbatim>\<open>SetScapeTime\<close> and \<^verbatim>\<open>SetCache\<close>. The cache path is whatever
  \<^verbatim>\<open>opts.GetCachePath\<close> returns (type \<open>'p\<close>) and the tag whatever
  \<^verbatim>\<open>collector.BuildCacheTag\<close> returns (type \<open>'t\<close>).
\<close>

record ('p, 't) Collector =
  Name :: string
  Processor :: processor
  ScrapeTime :: Duration
  CachePath :: 'p
  CacheTag :: 't

datatype route = healthz | readyz | metrics

record HttpServer =
  Addr :: string
  Handler :: "(string \<times> route) list"
  SrvReadTimeout :: Duration
  SrvWriteTimeout :: Duration

subsection \<open>Process state and termination\<close>

datatype out = Println string | WriteHelp

datatype fatal =
    TokenFileUnreadable string string
  | NoCredentials
  | DeprecatedEnvVar
  | AzAuthFailed string
  | CollectorStartFailed string
  | ServerStopped string

datatype halt = Exit int | Fatal fatal | Panic string

text \<open>
  The status the operating system sees: \<^verbatim>\<open>os.Exit(n)\<close> gives \<open>n\<close>; \<^verbatim>\<open>logger.Fatal\<close>
  and \<^verbatim>\<open>Fatalf\<close> (zap) log and call \<^verbatim>\<open>os.Exit(1)\<close>; an unrecovered panic ends a Go
  program with status 2.
\<close>

fun exit_status :: "halt \<Rightarrow> int" where
  "exit_status (Exit n) = n"
| "exit_status (Fatal m) = 1"
| "exit_status (Panic m) = 2"

record ('p, 't) proc =
  opts :: Opts
  stdout :: "out list"
  environ :: "string \<Rightarrow> string"
  AzureDevopsClient :: "DevopsClient option"
  ServiceDiscovery :: bool
  collectors :: "('p, 't) Collector list"
  disabledLog :: "string list"
  srv :: "HttpServer option"

type_synonym ('p, 't) result = "(halt \<times> ('p, 't) proc) + ('p, 't) proc"

definition andThen :: "('p, 't) result \<Rightarrow> (('p, 't) proc \<Rightarrow> ('p, 't) result) \<Rightarrow> ('p, 't) result" where
  "andThen r f = (case r of Inl t \<Rightarrow> Inl t | Inr st \<Rightarrow> f st)"

definition terminated :: "('p, 't) result \<Rightarrow> halt option" where
  "terminated r = (case r of Inl (t, st) \<Rightarrow> Some t | Inr st \<Rightarrow> None)"

definition final :: "('p, 't) result \<Rightarrow> ('p, 't) proc" where
  "final r = (case r of Inl (t, st) \<Rightarrow> st | Inr st \<Rightarrow> st)"

subsection \<open>What the environment answers\<close>

datatype ErrorType = ErrHelp | ErrOtherType

datatype parse_error = FlagsError ErrorType | OtherError

text \<open>
  \<open>ParseErr\<close> and \<open>ParsedOpts\<close>: the error \<^verbatim>\<open>argparser.Parse()\<close> returns and the
  options it has filled (\<open>FlagsError t\<close> is an error that \<^verbatim>\<open>errors.As\<close> finds to be a
  \<^verbatim>\<open>*flags.Error\<close> of type \<open>t\<close>; only \<^verbatim>\<open>ErrHelp\<close> is told apart).
  \<open>ReadFile\<close>, \<open>TrimSpace\<close>, \<open>Getenv\<close>, \<open>SetenvErr\<close>: the Go library's functions of
  these names (\<open>Inl\<close> is the error; \<open>Getenv\<close> is the environment at start, \<open>[]\<close> for
  an unset variable). \<open>UseAzAuth\<close>: the error of \<^verbatim>\<open>AzureDevopsClient.UseAzAuth()\<close>,
  which reads the environment. \<open>DiscoveryUpdate\<close>: how
  \<^verbatim>\<open>NewAzureDevopsServiceDiscovery().Update()\<close> ends, \<open>None\<close> when it returns.
  \<open>GetCachePath\<close>: the method of \<^verbatim>\<open>config.Opts\<close>. \<open>BuildCacheTag\<close>, \<open>Start\<close>: the
  collector library's functions. \<open>ListenAndServe\<close>: the error the listener returns,
  \<open>None\<close> while it keeps serving. \<open>MetricsPage\<close>: what \<^verbatim>\<open>promhttp.Handler()\<close> writes.
\<close>

record ('p, 't) world =
  ParseErr :: "parse_error option"
  ParsedOpts :: Opts
  ReadFile :: "string \<Rightarrow> string + string"
  TrimSpace :: "string \<Rightarrow> string"
  Getenv :: "string \<Rightarrow> string"
  SetenvErr :: "string \<Rightarrow> string \<Rightarrow> string option"
  UseAzAuth :: "(string \<Rightarrow> string) \<Rightarrow> string option"
  DiscoveryUpdate :: "halt option"
  GetCachePath :: "Opts \<Rightarrow> string \<Rightarrow> 'p"
  BuildCacheTag :: "string \<Rightarrow> AzureDevopsOpts \<Rightarrow> 't"
  Start :: "('p, 't) Collector \<Rightarrow> string option"
  ListenAndServe :: "string option"
  MetricsPage :: "('p, 't) Collector list \<Rightarrow> string"

text \<open>The process as \<^verbatim>\<open>main\<close> finds it.\<close>

definition proc0 :: "('p, 't) world \<Rightarrow> ('p, 't) proc" where
  "proc0 w =
     \<lparr>opts = zeroOpts, stdout = [], environ = Getenv w, AzureDevopsClient = None,
      ServiceDiscovery = False, collectors = [], disabledLog = [], srv = None\<rparr>"

subsection \<open>initArgparser\<close>

text \<open>Lines 60-73: parse; help exits with 0, any other error prints the help and exits with 1.\<close>

definition parseArguments :: "('p, 't) world \<Rightarrow> ('p, 't) proc \<Rightarrow> ('p, 't) result" where
  "parseArguments w st0 =
     (let st = st0\<lparr>opts := ParsedOpts w\<rparr> in
      case ParseErr w of
        Some err \<Rightarrow>
          (if err = FlagsError ErrHelp then Inl (Exit 0, st)
           else Inl (Exit 1, st\<lparr>stdout := stdout st @ [Println [], WriteHelp]\<rparr>))
      | None \<Rightarrow> Inr st)"

text \<open>Lines 76-84: load the access token from a file. \<open>setAccessToken v\<close> is the
  assignment \<^verbatim>\<open>opts.AzureDevops.AccessToken = v\<close>.\<close>

definition setAccessToken :: "string \<Rightarrow> Opts \<Rightarrow> Opts" where
  "setAccessToken v cfg = cfg\<lparr>AzureDevops := (AzureDevops cfg)\<lparr>AccessToken := v\<rparr>\<rparr>"

definition loadAccessToken :: "('p, 't) world \<Rightarrow> ('p, 't) proc \<Rightarrow> ('p, 't) result" where
  "loadAccessToken w st =
     (case AccessTokenFile (AzureDevops (opts st)) of
        None \<Rightarrow> Inr st
      | Some f \<Rightarrow>
          if length f > 0 then
            (case ReadFile w f of
               Inr val \<Rightarrow>
                 Inr (st\<lparr>opts := setAccessToken (TrimSpace w val) (opts st)\<rparr>)
             | Inl err \<Rightarrow> Inl (Fatal (TokenFileUnreadable f err), st))
          else Inr st)"

text \<open>Lines 86-88: a token, or tenant id and client id.\<close>

definition checkCredentials :: "('p, 't) proc \<Rightarrow> ('p, 't) result" where
  "checkCredentials st =
     (if length (AccessToken (AzureDevops (opts st))) = 0
         \<and> (length (TenantId (Azure (opts st))) = 0 \<or> length (ClientId (Azure (opts st))) = 0)
      then Inl (Fatal NoCredentials, st)
      else Inr st)"

text \<open>
  Lines 91-102. \<^verbatim>\<open>strings.Count(query, "@")\<close> with a one-byte pattern is the number of
  bytes equal to it. \<^verbatim>\<open>fmt.Println\<close> puts a space between its operands.
\<close>

definition Count :: "string \<Rightarrow> char \<Rightarrow> nat" where
  "Count s c = length (filter (\<lambda>x. x = c) s)"

definition malformedLine :: "string \<Rightarrow> out" where
  "malformedLine query =
     Println (''Query path '' @ [CHR 0x27] @ '' '' @ query @ '' '' @ [CHR 0x27]
              @ '' is malformed; should be '' @ [CHR 0x27]
              @ ''<query UUID>@<project UUID>'' @ [CHR 0x27])"

fun queryLoop :: "string list \<Rightarrow> bool \<times> out list \<Rightarrow> bool \<times> out list" where
  "queryLoop [] acc = acc"
| "queryLoop (query # rest) (queryError, printed) =
     (if Count query (CHR ''@'') \<noteq> 1
      then queryLoop rest (True, printed @ [malformedLine query])
      else queryLoop rest (queryError, printed))"

definition checkQueries :: "('p, 't) proc \<Rightarrow> ('p, 't) result" where
  "checkQueries st =
     (case queryLoop (QueriesWithProjects (AzureDevops (opts st))) (False, stdout st) of
        (queryError, printed) \<Rightarrow>
          if queryError then Inl (Exit 1, st\<lparr>stdout := printed\<rparr>)
          else Inr (st\<lparr>stdout := printed\<rparr>))"

text \<open>
  Lines 104-147. A nil option is pointed at \<^verbatim>\<open>opts.Scrape.Time\<close>; nothing writes to that
  field afterwards, so the pointer is modelled by the value it reads.
\<close>

definition orDefault :: "Duration option \<Rightarrow> Duration \<Rightarrow> Duration option" where
  "orDefault p d = (case p of None \<Rightarrow> Some d | Some v \<Rightarrow> Some v)"

definition useDefaultScrapeTime :: "Opts \<Rightarrow> Opts" where
  "useDefaultScrapeTime cfg =
     (let s = Scrape cfg;
          s = s\<lparr>TimeProjects := orDefault (TimeProjects s) (Time s)\<rparr>;
          s = s\<lparr>TimeRepository := orDefault (TimeRepository s) (Time s)\<rparr>;
          s = s\<lparr>TimePullRequest := orDefault (TimePullRequest s) (Time s)\<rparr>;
          s = s\<lparr>TimeBuild := orDefault (TimeBuild s) (Time s)\<rparr>;
          s = s\<lparr>TimeRelease := orDefault (TimeRelease s) (Time s)\<rparr>;
          s = s\<lparr>TimeDeployment := orDefault (TimeDeployment s) (Time s)\<rparr>;
          s = s\<lparr>TimeStats := orDefault (TimeStats s) (Time s)\<rparr>;
          s = s\<lparr>TimeResourceUsage := orDefault (TimeResourceUsage s) (Time s)\<rparr>;
          a = (case SummaryMaxAge (Stats cfg) of
                 None \<Rightarrow> (Stats cfg)\<lparr>SummaryMaxAge := TimeStats s\<rparr>
               | Some v \<Rightarrow> Stats cfg);
          s = s\<lparr>TimeQuery := orDefault (TimeQuery s) (Time s)\<rparr>;
          s = s\<lparr>TimeAgentPools := orDefault (TimeAgentPools s) (Time s)\<rparr>
      in cfg\<lparr>Scrape := s, Stats := a\<rparr>)"

text \<open>Lines 149-151.\<close>

definition checkDeprecatedEnv :: "('p, 't) proc \<Rightarrow> ('p, 't) result" where
  "checkDeprecatedEnv st =
     (if environ st ''AZURE_DEVOPS_FILTER_AGENTPOOL'' \<noteq> []
      then Inl (Fatal DeprecatedEnvVar, st)
      else Inr st)"

definition initArgparser :: "('p, 't) world \<Rightarrow> ('p, 't) proc \<Rightarrow> ('p, 't) result" where
  "initArgparser w st =
     andThen (andThen (andThen (andThen (parseArguments w st)
       (loadAccessToken w))
       checkCredentials)
       checkQueries)
       (\<lambda>st. checkDeprecatedEnv (st\<lparr>opts := useDefaultScrapeTime (opts st)\<rparr>))"

subsection \<open>initAzureDevOpsConnection\<close>

definition withClient :: "(DevopsClient \<Rightarrow> DevopsClient) \<Rightarrow> ('p, 't) proc \<Rightarrow> ('p, 't) proc" where
  "withClient f st = st\<lparr>AzureDevopsClient := map_option f (AzureDevopsClient st)\<rparr>"

text \<open>Lines 156-159.\<close>

definition newClient :: "('p, 't) proc \<Rightarrow> ('p, 't) proc" where
  "newClient st =
     (let st = st\<lparr>AzureDevopsClient := Some NewAzureDevopsClient\<rparr> in
      case Url (AzureDevops (opts st)) of
        Some u \<Rightarrow> withClient (\<lambda>c. c\<lparr>HostUrl := Some u\<rparr>) st
      | None \<Rightarrow> st)"

text \<open>Lines 167-183, one variable: set it if the option is not empty; a failure panics.\<close>

definition populateEnv :: "('p, 't) world \<Rightarrow> string \<Rightarrow> string \<Rightarrow> ('p, 't) proc \<Rightarrow> ('p, 't) result" where
  "populateEnv w key val st =
     (if val \<noteq> [] then
        (case SetenvErr w key val of
           Some err \<Rightarrow> Inl (Panic err, st)
         | None \<Rightarrow> Inr (st\<lparr>environ := (environ st)(key := val)\<rparr>))
      else Inr st)"

text \<open>The environment after lines 167-183 when no \<^verbatim>\<open>Setenv\<close> fails: what
  \<^verbatim>\<open>UseAzAuth\<close> then reads.\<close>

definition azEnviron :: "AzureOpts \<Rightarrow> (string \<Rightarrow> string) \<Rightarrow> (string \<Rightarrow> string)" where
  "azEnviron a env =
     (let env = (if TenantId a \<noteq> [] then env(''AZURE_TENANT_ID'' := TenantId a) else env);
          env = (if ClientId a \<noteq> [] then env(''AZURE_CLIENT_ID'' := ClientId a) else env);
          env = (if ClientSecret a \<noteq> [] then env(''AZURE_CLIENT_SECRET'' := ClientSecret a) else env)
      in env)"

text \<open>Lines 185-192.\<close>

definition selectAuth :: "('p, 't) world \<Rightarrow> ('p, 't) proc \<Rightarrow> ('p, 't) result" where
  "selectAuth w st0 =
     (let st = withClient (\<lambda>c. c\<lparr>organization := Organisation (AzureDevops (opts st0))\<rparr>) st0 in
      if AccessToken (AzureDevops (opts st)) \<noteq> [] then
        Inr (withClient (\<lambda>c. c\<lparr>auth := AccessTokenAuth (AccessToken (AzureDevops (opts st)))\<rparr>) st)
      else
        (case UseAzAuth w (environ st) of
           Some err \<Rightarrow> Inl (Fatal (AzAuthFailed err), st)
         | None \<Rightarrow> Inr (withClient (\<lambda>c. c\<lparr>auth := AzAuth\<rparr>) st)))"

text \<open>Lines 193-204.\<close>

definition configureClient :: "('p, 't) proc \<Rightarrow> ('p, 't) proc" where
  "configureClient st =
     withClient (\<lambda>c. c\<lparr>
         apiVersion := ApiVersion (AzureDevops (opts st)),
         concurrency := ConcurrencyLimit (Request (opts st)),
         retries := Retries (Request (opts st)),
         userAgent := ''azure-devops-exporter/'' @ gitTag,
         LimitProject := Project (Limit (opts st)),
         LimitBuildsPerProject := BuildsPerProject (Limit (opts st)),
         LimitBuildsPerDefinition := BuildsPerDefinition (Limit (opts st)),
         LimitReleasesPerDefinition := ReleasesPerDefinition (Limit (opts st)),
         LimitDeploymentPerDefinition := DeploymentPerDefinition (Limit (opts st)),
         LimitReleaseDefinitionsPerProject := ReleaseDefinitionsPerProject (Limit (opts st)),
         LimitReleasesPerProject := ReleasesPerProject (Limit (opts st))\<rparr>) st"

definition initAzureDevOpsConnection :: "('p, 't) world \<Rightarrow> ('p, 't) proc \<Rightarrow> ('p, 't) result" where
  "initAzureDevOpsConnection w st =
     andThen (andThen (andThen (andThen (andThen (Inr (newClient st))
       (\<lambda>st. populateEnv w ''AZURE_TENANT_ID'' (TenantId (Azure (opts st))) st))
       (\<lambda>st. populateEnv w ''AZURE_CLIENT_ID'' (ClientId (Azure (opts st))) st))
       (\<lambda>st. populateEnv w ''AZURE_CLIENT_SECRET'' (ClientSecret (Azure (opts st))) st))
       (selectAuth w))
       (\<lambda>st. Inr (configureClient st))"

text \<open>Lines 48-49.\<close>

definition updateServiceDiscovery :: "('p, 't) world \<Rightarrow> ('p, 't) proc \<Rightarrow> ('p, 't) result" where
  "updateServiceDiscovery w st =
     (case DiscoveryUpdate w of
        Some t \<Rightarrow> Inl (t, st)
      | None \<Rightarrow> Inr (st\<lparr>ServiceDiscovery := True\<rparr>))"

subsection \<open>initMetricCollector\<close>

text \<open>
  The closure \<^verbatim>\<open>startCollector\<close>. \<^verbatim>\<open>timeDuration\<close> is a pointer: reading through nil
  panics. In the first branch the collector is made and given its scrape time and
  cache, which appends it to \<open>collectors\<close>, and \<^verbatim>\<open>Start\<close> is called on it; an error of
  \<^verbatim>\<open>Start\<close> is fatal. The other branch only logs the name.
\<close>

definition startCollector ::
  "('p, 't) world \<Rightarrow> string \<Rightarrow> processor \<Rightarrow> string \<Rightarrow> Duration option \<Rightarrow> ('p, 't) proc \<Rightarrow> ('p, 't) result" where
  "startCollector w collectorName collectorType cacheFileName timeDuration st =
     (case timeDuration of
        None \<Rightarrow> Inl (Panic ''invalid memory address or nil pointer dereference'', st)
      | Some d \<Rightarrow>
          if Seconds d > 0 then
            (let c = \<lparr>Name = collectorName, Processor = collectorType, ScrapeTime = d,
                      CachePath = GetCachePath w (opts st) cacheFileName,
                      CacheTag = BuildCacheTag w cacheTag (AzureDevops (opts st))\<rparr>;
                 st' = st\<lparr>collectors := collectors st @ [c]\<rparr> in
             case Start w c of
               Some err \<Rightarrow> Inl (Fatal (CollectorStartFailed err), st')
             | None \<Rightarrow> Inr st')
          else Inr (st\<lparr>disabledLog := disabledLog st @ [collectorName]\<rparr>))"

definition initMetricCollector :: "('p, 't) world \<Rightarrow> ('p, 't) proc \<Rightarrow> ('p, 't) result" where
  "initMetricCollector w st =
     andThen (andThen (andThen (andThen (andThen (andThen (andThen (andThen (andThen (andThen
       (startCollector w ''Project'' MetricsCollectorProject ''project.json'' (TimeProjects (Scrape (opts st))) st)
       (\<lambda>st. startCollector w ''AgentPool'' MetricsCollectorAgentPool ''agentpool.json'' (TimeAgentPools (Scrape (opts st))) st))
       (\<lambda>st. startCollector w ''LatestBuild'' MetricsCollectorLatestBuild ''latestbuild.json'' (TimeBuild (Scrape (opts st))) st))
       (\<lambda>st. startCollector w ''Repository'' MetricsCollectorRepository ''latestbuild.json'' (TimeRepository (Scrape (opts st))) st))
       (\<lambda>st. startCollector w ''PullRequest'' MetricsCollectorPullRequest ''pullrequest.json'' (TimePullRequest (Scrape (opts st))) st))
       (\<lambda>st. startCollector w ''Build'' MetricsCollectorBuild ''build.json'' (TimeBuild (Scrape (opts st))) st))
       (\<lambda>st. startCollector w ''Release'' MetricsCollectorRelease ''release.json'' (TimeRelease (Scrape (opts st))) st))
       (\<lambda>st. startCollector w ''Deployment'' MetricsCollectorDeployment ''deployment.json'' (TimeDeployment (Scrape (opts st))) st))
       (\<lambda>st. startCollector w ''Stats'' MetricsCollectorStats ''stats.json'' (TimeStats (Scrape (opts st))) st))
       (\<lambda>st. startCollector w ''ResourceUsage'' MetricsCollectorResourceUsage ''resourceusage.json'' (TimeResourceUsage (Scrape (opts st))) st))
       (\<lambda>st. startCollector w ''Query'' MetricsCollectorQuery ''query.json'' (TimeQuery (Scrape (opts st))) st)"

subsection \<open>startHttpServer\<close>

text \<open>
  The response writer the server hands to a handler: the body sent so far, the error
  its \<^verbatim>\<open>Write\<close> returns if the connection is broken, and whether writes are eaten:
  for a \<^verbatim>\<open>HEAD\<close> request net/http accepts every write of the handler, returns no
  error and sends no body. \<open>newResponse\<close> is the writer of a fresh request.
  \<^verbatim>\<open>fmt.Fprint\<close> hands the text to \<^verbatim>\<open>Write\<close> and returns its error.
\<close>

record ResponseWriter =
  body :: string
  writeErr :: "string option"
  eatWrites :: bool

record Request =
  Method :: string
  Path :: string

definition newResponse :: "string option \<Rightarrow> Request \<Rightarrow> ResponseWriter" where
  "newResponse connErr r = \<lparr>body = [], writeErr = connErr, eatWrites = (Method r = ''HEAD'')\<rparr>"

definition Fprint :: "ResponseWriter \<Rightarrow> string \<Rightarrow> string option \<times> ResponseWriter" where
  "Fprint w s =
     (if eatWrites w then (None, w)
      else case writeErr w of
        Some err \<Rightarrow> (Some err, w)
      | None \<Rightarrow> (None, w\<lparr>body := body w @ s\<rparr>))"

text \<open>Lines 239-250: both handlers print "Ok" and log a failed write. The result is the
  writer and the error log.\<close>

definition healthzHandler :: "ResponseWriter \<Rightarrow> Request \<Rightarrow> ResponseWriter \<times> string list" where
  "healthzHandler w r =
     (case Fprint w ''Ok'' of
        (Some err, w') \<Rightarrow> (w', [err])
      | (None, w') \<Rightarrow> (w', []))"

definition readyzHandler :: "ResponseWriter \<Rightarrow> Request \<Rightarrow> ResponseWriter \<times> string list" where
  "readyzHandler w r =
     (case Fprint w ''Ok'' of
        (Some err, w') \<Rightarrow> (w', [err])
      | (None, w') \<Rightarrow> (w', []))"

definition mux :: "(string \<times> route) list" where
  "mux = [(''/healthz'', healthz), (''/readyz'', readyz), (''/metrics'', metrics)]"

text \<open>
  One request to the process in state \<open>st\<close>, on a connection whose writes fail with
  \<open>connErr\<close> if that is not \<open>None\<close>. Without a server there is no answer. Otherwise
  the server's handler, the mux that \<^verbatim>\<open>startHttpServer\<close> has stored in it, picks the
  handler registered for the path (the three patterns have no trailing slash, so each
  matches its path only, for every method) and runs it on a fresh response writer;
  \<open>NotFound\<close> is the mux's own answer for any other path.
\<close>

datatype answer = NoServer | NotFound | Handled ResponseWriter "string list"

definition ServeHTTP ::
  "('p, 't) world \<Rightarrow> ('p, 't) proc \<Rightarrow> string option \<Rightarrow> Request \<Rightarrow> answer" where
  "ServeHTTP w st connErr r =
     (case srv st of
        None \<Rightarrow> NoServer
      | Some s \<Rightarrow>
          (case map_of (Handler s) (Path r) of
             None \<Rightarrow> NotFound
           | Some healthz \<Rightarrow>
               (case healthzHandler (newResponse connErr r) r of (rw, errs) \<Rightarrow> Handled rw errs)
           | Some readyz \<Rightarrow>
               (case readyzHandler (newResponse connErr r) r of (rw, errs) \<Rightarrow> Handled rw errs)
           | Some metrics \<Rightarrow>
               Handled (snd (Fprint (newResponse connErr r) (MetricsPage w (collectors st)))) []))"

definition startHttpServer :: "('p, 't) world \<Rightarrow> ('p, 't) proc \<Rightarrow> ('p, 't) result" where
  "startHttpServer w st0 =
     (let st = st0\<lparr>srv := Some \<lparr>Addr = Bind (Server (opts st0)), Handler = mux,
                     SrvReadTimeout = ReadTimeout (Server (opts st0)),
                     SrvWriteTimeout = WriteTimeout (Server (opts st0))\<rparr>\<rparr> in
      case ListenAndServe w of
        Some err \<Rightarrow> Inl (Fatal (ServerStopped err), st)
      | None \<Rightarrow> Inr st)"

subsection \<open>main\<close>

definition main :: "('p, 't) world \<Rightarrow> ('p, 't) result" where
  "main w =
     andThen (andThen (andThen (andThen (initArgparser w (proc0 w))
       (initAzureDevOpsConnection w))
       (updateServiceDiscovery w))
       (initMetricCollector w))
       (startHttpServer w)"

subsection \<open>The calls of initMetricCollector as a table\<close>

text \<open>
  Lines 221-231 as data: one row per call of \<^verbatim>\<open>startCollector\<close>, in the order of the
  calls, with the collector's name, its processor, its cache file name and the scrape
  option it reads. \<open>startAll\<close> runs \<^verbatim>\<open>startCollector\<close> over rows;
  \<open>initMetricCollector_table\<close> below shows that \<open>initMetricCollector\<close> is \<open>startAll\<close>
  over this table.
\<close>

type_synonym row = "string \<times> processor \<times> string \<times> Duration option"

definition collectorTable :: "Opts \<Rightarrow> row list" where
  "collectorTable cfg =
     [(''Project'', MetricsCollectorProject, ''project.json'', TimeProjects (Scrape cfg)),
      (''AgentPool'', MetricsCollectorAgentPool, ''agentpool.json'', TimeAgentPools (Scrape cfg)),
      (''LatestBuild'', MetricsCollectorLatestBuild, ''latestbuild.json'', TimeBuild (Scrape cfg)),
      (''Repository'', MetricsCollectorRepository, ''latestbuild.json'', TimeRepository (Scrape cfg)),
      (''PullRequest'', MetricsCollectorPullRequest, ''pullrequest.json'', TimePullRequest (Scrape cfg)),
      (''Build'', MetricsCollectorBuild, ''build.json'', TimeBuild (Scrape cfg)),
      (''Release'', MetricsCollectorRelease, ''release.json'', TimeRelease (Scrape cfg)),
      (''Deployment'', MetricsCollectorDeployment, ''deployment.json'', TimeDeployment (Scrape cfg)),
      (''Stats'', MetricsCollectorStats, ''stats.json'', TimeStats (Scrape cfg)),
      (''ResourceUsage'', MetricsCollectorResourceUsage, ''resourceusage.json'', TimeResourceUsage (Scrape cfg)),
      (''Query'', MetricsCollectorQuery, ''query.json'', TimeQuery (Scrape cfg))]"

fun startAll :: "('p, 't) world \<Rightarrow> row list \<Rightarrow> ('p, 't) proc \<Rightarrow> ('p, 't) result" where
  "startAll w [] st = Inr st"
| "startAll w ((n, p, f, t) # rows) st = andThen (startCollector w n p f t st) (startAll w rows)"

text \<open>The collector \<^verbatim>\<open>startCollector\<close> builds for a row whose interval is \<open>d\<close>.\<close>

definition collectorOf :: "('p, 't) world \<Rightarrow> Opts \<Rightarrow> string \<Rightarrow> processor \<Rightarrow> string \<Rightarrow> Duration \<Rightarrow> ('p, 't) Collector" where
  "collectorOf w cfg n p f d =
     \<lparr>Name = n, Processor = p, ScrapeTime = d,
      CachePath = GetCachePath w cfg f,
      CacheTag = BuildCacheTag w cacheTag (AzureDevops cfg)\<rparr>"

text \<open>Name and cache path of every collector in the state a result carries.\<close>

definition cacheFiles :: "('p, 't) result \<Rightarrow> (string \<times> 'p) list" where
  "cacheFiles r = map (\<lambda>c. (Name c, CachePath c)) (collectors (final r))"

subsection \<open>The form "<uuid>@<uuid>" of the specification\<close>

text \<open>
  The specification's words for a well-formed query filter, for comparison with what
  lines 91-102 check: a UUID is 8-4-4-4-12 hexadecimal digits separated by hyphens, and
  the form is two of them around one \<open>@\<close>.
\<close>

definition charClass :: "char \<Rightarrow> nat" where
  "charClass c =
     (if c \<in> set ''0123456789abcdefABCDEF'' then 1 else if c = CHR ''-'' then 2 else 0)"

definition spec_uuid :: "string \<Rightarrow> bool" where
  "spec_uuid s =
     (map charClass s =
        replicate 8 1 @ [2] @ replicate 4 1 @ [2] @ replicate 4 1 @ [2] @ replicate 4 1
        @ [2] @ replicate 12 1)"

definition spec_query_form :: "string \<Rightarrow> bool" where
  "spec_query_form q =
     (spec_uuid (takeWhile (\<lambda>c. c \<noteq> CHR ''@'') q)
      \<and> (case dropWhile (\<lambda>c. c \<noteq> CHR ''@'') q of [] \<Rightarrow> False | c # rest \<Rightarrow> spec_uuid rest))"

subsection \<open>Concrete environments\<close>

text \<open>
  Environments on which the definitions are evaluated. In \<open>world0\<close> the arguments
  parse, a token is given on the command line, every scrape option is left unset with
  a global scrape time of 30 minutes, every library call succeeds and the listener
  keeps serving. The cache path is the cache file name itself and the cache tag the
  pair of \<^verbatim>\<open>BuildCacheTag\<close>'s arguments, so both functions are injective here.
  \<open>asciiTrim\<close> is \<^verbatim>\<open>strings.TrimSpace\<close> on ASCII text. The only file is
  \<^verbatim>\<open>/run/token\<close>, a token with a space before and a line feed after it.
\<close>

definition asciiSpace :: "char \<Rightarrow> bool" where
  "asciiSpace c = (c \<in> set [CHR 0x09, CHR 0x0A, CHR 0x0B, CHR 0x0C, CHR 0x0D, CHR 0x20])"

definition asciiTrim :: "string \<Rightarrow> string" where
  "asciiTrim s = rev (dropWhile asciiSpace (rev (dropWhile asciiSpace s)))"

definition opts0 :: Opts where
  "opts0 =
     \<lparr>Azure = \<lparr>TenantId = [], ClientId = [], ClientSecret = []\<rparr>,
      AzureDevops = \<lparr>Url = None, AccessToken = ''pat'', AccessTokenFile = None,
        Organisation = ''org'', ApiVersion = ''7.1'', QueriesWithProjects = []\<rparr>,
      Scrape = \<lparr>Time = 1800000000000, TimeProjects = None, TimeRepository = None,
        TimePullRequest = None, TimeBuild = None, TimeRelease = None,
        TimeDeployment = None, TimeStats = None, TimeResourceUsage = None,
        TimeQuery = None, TimeAgentPools = None\<rparr>,
      Stats = \<lparr>SummaryMaxAge = None\<rparr>,
      Request = \<lparr>ConcurrencyLimit = 10, Retries = 3\<rparr>,
      Limit = \<lparr>Project = 100, BuildsPerProject = 100, BuildsPerDefinition = 10,
        ReleasesPerDefinition = 100, DeploymentPerDefinition = 100,
        ReleaseDefinitionsPerProject = 100, ReleasesPerProject = 100\<rparr>,
      Server = \<lparr>Bind = '':8080'', ReadTimeout = 5000000000, WriteTimeout = 10000000000\<rparr>\<rparr>"

definition tokenFileContent :: string where
  "tokenFileContent = '' s3cr3t'' @ [CHR 0x0A]"

definition world0 :: "(string, string \<times> AzureDevopsOpts) world" where
  "world0 =
     \<lparr>ParseErr = None, ParsedOpts = opts0,
      ReadFile = (\<lambda>f. if f = ''/run/token'' then Inr tokenFileContent
                      else Inl ''no such file or directory''),
      TrimSpace = asciiTrim,
      Getenv = (\<lambda>k. []),
      SetenvErr = (\<lambda>k v. None),
      UseAzAuth = (\<lambda>env. None),
      DiscoveryUpdate = None,
      GetCachePath = (\<lambda>cfg f. f),
      BuildCacheTag = Pair,
      Start = (\<lambda>c. None),
      ListenAndServe = None,
      MetricsPage = (\<lambda>cs. [])\<rparr>"

text \<open>\<open>world0\<close> with other options parsed.\<close>

definition withOpts :: "Opts \<Rightarrow> (string, string \<times> AzureDevopsOpts) world" where
  "withOpts cfg = world0\<lparr>ParsedOpts := cfg\<rparr>"

text \<open>No token; tenant id and client id given, no client secret.\<close>

definition optsNoSecret :: Opts where
  "optsNoSecret =
     opts0\<lparr>Azure := \<lparr>TenantId = ''tenant'', ClientId = ''client'', ClientSecret = []\<rparr>,
           AzureDevops := (AzureDevops opts0)\<lparr>AccessToken := []\<rparr>\<rparr>"

text \<open>No token and no service-principal options at all.\<close>

definition optsNoCredentials :: Opts where
  "optsNoCredentials = opts0\<lparr>AzureDevops := (AzureDevops opts0)\<lparr>AccessToken := []\<rparr>\<rparr>"

text \<open>The token comes from a file; a token is given on the command line as well.\<close>

definition optsTokenFile :: "string \<Rightarrow> Opts" where
  "optsTokenFile f = opts0\<lparr>AzureDevops := (AzureDevops opts0)\<lparr>AccessTokenFile := Some f\<rparr>\<rparr>"

text \<open>Query filters.\<close>

definition optsQueries :: "string list \<Rightarrow> Opts \<Rightarrow> Opts" where
  "optsQueries qs cfg = cfg\<lparr>AzureDevops := (AzureDevops cfg)\<lparr>QueriesWithProjects := qs\<rparr>\<rparr>"

text \<open>The build interval set to zero, the release interval to one minute.\<close>

definition optsBuildOff :: Opts where
  "optsBuildOff =
     opts0\<lparr>Scrape := (Scrape opts0)\<lparr>TimeBuild := Some 0, TimeRelease := Some 60000000000\<rparr>\<rparr>"

text \<open>Another project limit, everything else as in \<open>opts0\<close>.\<close>

definition optsOtherLimit :: Opts where
  "optsOtherLimit = opts0\<lparr>Limit := (Limit opts0)\<lparr>Project := 5\<rparr>\<rparr>"

text \<open>Another organisation, everything else as in \<open>opts0\<close>.\<close>

definition optsOtherOrg :: Opts where
  "optsOtherOrg = opts0\<lparr>AzureDevops := (AzureDevops opts0)\<lparr>Organisation := ''other''\<rparr>\<rparr>"

text \<open>The service-principal token acquisition cannot be set up.\<close>

definition worldAzDenied :: "(string, string \<times> AzureDevopsOpts) world" where
  "worldAzDenied = (withOpts optsNoSecret)\<lparr>UseAzAuth := (\<lambda>env. Some ''no credential available'')\<rparr>"

text \<open>The command line asks for help; the command line has an unknown flag.\<close>

definition worldHelp :: "(string, string \<times> AzureDevopsOpts) world" where
  "worldHelp = world0\<lparr>ParseErr := Some (FlagsError ErrHelp)\<rparr>"

definition worldBadFlag :: "(string, string \<times> AzureDevopsOpts) world" where
  "worldBadFlag = world0\<lparr>ParseErr := Some (FlagsError ErrOtherType)\<rparr>"

text \<open>The first collector cannot be started; the listener returns an error.\<close>

definition worldStartFails :: "(string, string \<times> AzureDevopsOpts) world" where
  "worldStartFails = world0\<lparr>Start := (\<lambda>c. Some ''collector setup failed'')\<rparr>"

definition worldServerStops :: "(string, string \<times> AzureDevopsOpts) world" where
  "worldServerStops = world0\<lparr>ListenAndServe := Some ''address already in use''\<rparr>"

section \<open>Properties of the startup sequence\<close>

subsection \<open>Results, sequencing and durations\<close>


lemma andThen_Inl [simp]: "andThen (Inl t) f = Inl t"
  by (simp add: andThen_def)

lemma andThen_Inr [simp]: "andThen (Inr st) f = f st"
  by (simp add: andThen_def)

lemma andThen_eq_Inr: "andThen r f = Inr st' \<longleftrightarrow> (\<exists>st. r = Inr st \<and> f st = Inr st')"
  by (cases r) simp_all

lemma andThen_eq_Inl:
  "andThen r f = Inl x \<longleftrightarrow> r = Inl x \<or> (\<exists>st. r = Inr st \<and> f st = Inl x)"
  by (cases r) auto

lemma final_Inr [simp]: "final (Inr st) = st"
  by (simp add: final_def)

lemma final_Inl [simp]: "final (Inl (t, st)) = st"
  by (simp add: final_def)

lemma terminated_Inr [simp]: "terminated (Inr st) = None"
  by (simp add: terminated_def)

lemma terminated_Inl [simp]: "terminated (Inl (t, st)) = Some t"
  by (simp add: terminated_def)

lemma Seconds_exact: "Seconds d = of_int d / 1000000000"
proof -
  have "d = (d sdiv Second) * Second + d smod Second"
    by (simp add: sdiv_mult_smod_eq)
  then have "(of_int d :: rat) = of_int (d sdiv Second) * 1000000000 + of_int (d smod Second)"
    by (metis Second_def of_int_add of_int_mult of_int_numeral)
  then show ?thesis
    by (simp add: Seconds_def field_simps)
qed

lemma Seconds_pos: "0 < Seconds d \<longleftrightarrow> 0 < d"
  by (simp add: Seconds_exact)


subsection \<open>initArgparser\<close>

lemma checkCredentials_cases:
  "checkCredentials st = Inr st \<or> checkCredentials st = Inl (Fatal NoCredentials, st)"
  by (simp add: checkCredentials_def)

lemma queryLoop_eq:
  "queryLoop qs (e, printed) =
     (e \<or> (\<exists>q \<in> set qs. Count q (CHR ''@'') \<noteq> 1),
      printed @ map malformedLine (filter (\<lambda>q. Count q (CHR ''@'') \<noteq> 1) qs))"
  by (induction qs arbitrary: e printed) auto

lemma checkQueries_eq:
  "checkQueries st =
     (let bad = filter (\<lambda>q. Count q (CHR ''@'') \<noteq> 1) (QueriesWithProjects (AzureDevops (opts st)));
          st' = st\<lparr>stdout := stdout st @ map malformedLine bad\<rparr>
      in if bad \<noteq> [] then Inl (Exit 1, st') else Inr st')"
  by (auto simp: checkQueries_def queryLoop_eq Let_def filter_empty_conv)

lemma setAccessToken_same [simp]: "setAccessToken (AccessToken (AzureDevops cfg)) cfg = cfg"
  by (simp add: setAccessToken_def)

lemma setAccessToken_sel [simp]:
  "AccessToken (AzureDevops (setAccessToken v cfg)) = v"
  "Azure (setAccessToken v cfg) = Azure cfg"
  "Scrape (setAccessToken v cfg) = Scrape cfg"
  "Stats (setAccessToken v cfg) = Stats cfg"
  "Request (setAccessToken v cfg) = Request cfg"
  "Limit (setAccessToken v cfg) = Limit cfg"
  "Server (setAccessToken v cfg) = Server cfg"
  "QueriesWithProjects (AzureDevops (setAccessToken v cfg)) = QueriesWithProjects (AzureDevops cfg)"
  "AccessTokenFile (AzureDevops (setAccessToken v cfg)) = AccessTokenFile (AzureDevops cfg)"
  by (simp_all add: setAccessToken_def)

lemma loadAccessToken_Inr:
  "loadAccessToken w st = Inr st' \<Longrightarrow> \<exists>tok. st' = st\<lparr>opts := setAccessToken tok (opts st)\<rparr>"
  apply (auto simp: loadAccessToken_def split: option.splits if_splits sum.splits)
  apply (rule exI [of _ "AccessToken (AzureDevops (opts st))"], simp)+
  done

lemma initArgparser_Inr:
  assumes "initArgparser w st0 = Inr st"
  shows "\<exists>tok printed. ParseErr w = None \<and>
     loadAccessToken w (st0\<lparr>opts := ParsedOpts w\<rparr>) = Inr (st0\<lparr>opts := setAccessToken tok (ParsedOpts w)\<rparr>) \<and>
     checkCredentials (st0\<lparr>opts := setAccessToken tok (ParsedOpts w)\<rparr>) = Inr (st0\<lparr>opts := setAccessToken tok (ParsedOpts w)\<rparr>) \<and>
     st = st0\<lparr>opts := useDefaultScrapeTime (setAccessToken tok (ParsedOpts w)), stdout := printed\<rparr>"
proof -
  from assms obtain s1 s2 s3 s4 where
    1: "parseArguments w st0 = Inr s1" and 2: "loadAccessToken w s1 = Inr s2"
    and 3: "checkCredentials s2 = Inr s3" and 4: "checkQueries s3 = Inr s4"
    and 5: "checkDeprecatedEnv (s4\<lparr>opts := useDefaultScrapeTime (opts s4)\<rparr>) = Inr st"
    unfolding initArgparser_def andThen_eq_Inr by blast
  from 1 have p: "ParseErr w = None" and s1: "s1 = st0\<lparr>opts := ParsedOpts w\<rparr>"
    by (auto simp: parseArguments_def Let_def split: option.splits if_splits)
  from loadAccessToken_Inr [OF 2] obtain tok where
    s2: "s2 = s1\<lparr>opts := setAccessToken tok (opts s1)\<rparr>" by blast
  from 3 have s3: "s3 = s2" using checkCredentials_cases [of s2] by auto
  from 4 have s4: "s4 = s3\<lparr>stdout := stdout s3 @ map malformedLine
        (filter (\<lambda>q. Count q (CHR ''@'') \<noteq> 1) (QueriesWithProjects (AzureDevops (opts s3))))\<rparr>"
    by (auto simp: checkQueries_eq Let_def split: if_splits)
  from 5 have st: "st = s4\<lparr>opts := useDefaultScrapeTime (opts s4)\<rparr>"
    by (auto simp: checkDeprecatedEnv_def split: if_splits)
  show ?thesis
    apply (rule exI [of _ tok])
    apply (rule exI [of _ "stdout st"])
    using p 2 3 by (simp add: st s4 s3 s2 s1)
qed

lemma useDefaultScrapeTime_Scrape:
  "Scrape (useDefaultScrapeTime cfg) =
     (let s = Scrape cfg; t = Time s in
      \<lparr>Time = t,
       TimeProjects = orDefault (TimeProjects s) t,
       TimeRepository = orDefault (TimeRepository s) t,
       TimePullRequest = orDefault (TimePullRequest s) t,
       TimeBuild = orDefault (TimeBuild s) t,
       TimeRelease = orDefault (TimeRelease s) t,
       TimeDeployment = orDefault (TimeDeployment s) t,
       TimeStats = orDefault (TimeStats s) t,
       TimeResourceUsage = orDefault (TimeResourceUsage s) t,
       TimeQuery = orDefault (TimeQuery s) t,
       TimeAgentPools = orDefault (TimeAgentPools s) t\<rparr>)"
  by (simp add: useDefaultScrapeTime_def Let_def)

lemma useDefaultScrapeTime_Stats:
  "SummaryMaxAge (Stats (useDefaultScrapeTime cfg)) =
     (case SummaryMaxAge (Stats cfg) of
        None \<Rightarrow> orDefault (TimeStats (Scrape cfg)) (Time (Scrape cfg))
      | Some v \<Rightarrow> Some v)"
  by (simp add: useDefaultScrapeTime_def Let_def split: option.splits)

lemma useDefaultScrapeTime_other [simp]:
  "Azure (useDefaultScrapeTime cfg) = Azure cfg"
  "AzureDevops (useDefaultScrapeTime cfg) = AzureDevops cfg"
  "Request (useDefaultScrapeTime cfg) = Request cfg"
  "Limit (useDefaultScrapeTime cfg) = Limit cfg"
  "Server (useDefaultScrapeTime cfg) = Server cfg"
  by (simp_all add: useDefaultScrapeTime_def Let_def)

text \<open>
  Claim C9: when \<^verbatim>\<open>initArgparser\<close> returns, each of the ten per-collector scrape options
  is the global scrape time if it was unset and its own value if it was set; an unset
  stats summary max-age is the stats scrape option as just defaulted, a set one is
  unchanged; the global scrape time is unchanged; and no collector is registered yet.
\<close>

theorem C9_unset_scrape_times_default:
  assumes "initArgparser w (proc0 w) = Inr st"
  shows "(\<forall>field \<in> set [TimeProjects, TimeRepository, TimePullRequest, TimeBuild, TimeRelease,
              TimeDeployment, TimeStats, TimeResourceUsage, TimeQuery, TimeAgentPools].
            field (Scrape (opts st)) =
              (case field (Scrape (ParsedOpts w)) of
                 None \<Rightarrow> Some (Time (Scrape (ParsedOpts w)))
               | Some v \<Rightarrow> Some v))
         \<and> SummaryMaxAge (Stats (opts st)) =
              (case SummaryMaxAge (Stats (ParsedOpts w)) of
                 None \<Rightarrow> TimeStats (Scrape (opts st))
               | Some v \<Rightarrow> Some v)
         \<and> Time (Scrape (opts st)) = Time (Scrape (ParsedOpts w))
         \<and> collectors st = []"
proof -
  from initArgparser_Inr [OF assms] obtain tok printed where
    st: "st = (proc0 w)\<lparr>opts := useDefaultScrapeTime (setAccessToken tok (ParsedOpts w)),
                        stdout := printed\<rparr>"
    by blast
  show ?thesis
    by (simp add: st useDefaultScrapeTime_Scrape useDefaultScrapeTime_Stats Let_def
        orDefault_def proc0_def split: option.splits)
qed


subsection \<open>startCollector and the table of collectors\<close>

lemma startCollector_Inr:
  "startCollector w n p f t st = Inr st' \<longleftrightarrow>
     (\<exists>d. t = Some d \<and>
        (if 0 < d then Start w (collectorOf w (opts st) n p f d) = None
                       \<and> st' = st\<lparr>collectors := collectors st @ [collectorOf w (opts st) n p f d]\<rparr>
         else st' = st\<lparr>disabledLog := disabledLog st @ [n]\<rparr>))"
  by (cases t) (auto simp: startCollector_def collectorOf_def Seconds_pos Let_def split: option.splits)

lemma startCollector_final:
  "\<exists>cs l. final (startCollector w n p f t st) = st\<lparr>collectors := collectors st @ cs, disabledLog := disabledLog st @ l\<rparr>
     \<and> (\<forall>c \<in> set cs. CacheTag c = BuildCacheTag w cacheTag (AzureDevops (opts st)))"
proof (cases "startCollector w n p f t st")
  case (Inl x)
  show ?thesis
  proof (cases t)
    case None
    then have "final (startCollector w n p f t st) = st"
      by (simp add: startCollector_def)
    then show ?thesis
      by (intro exI [of _ "[]"]) simp
  next
    case (Some d)
    with Inl have "final (startCollector w n p f t st) =
        st\<lparr>collectors := collectors st @ [collectorOf w (opts st) n p f d]\<rparr>"
      by (auto simp: startCollector_def collectorOf_def Let_def split: option.splits if_splits)
    then show ?thesis
      by (intro exI [of _ "[collectorOf w (opts st) n p f d]"] exI [of _ "[]"])
        (simp add: collectorOf_def)
  qed
next
  case (Inr st')
  then obtain d where d: "t = Some d"
    and pos: "0 < d \<Longrightarrow> st' = st\<lparr>collectors := collectors st @ [collectorOf w (opts st) n p f d]\<rparr>"
    and off: "\<not> 0 < d \<Longrightarrow> st' = st\<lparr>disabledLog := disabledLog st @ [n]\<rparr>"
    unfolding startCollector_Inr by (auto split: if_splits)
  show ?thesis
  proof (cases "0 < d")
    case True
    with pos Inr show ?thesis
      by (intro exI [of _ "[collectorOf w (opts st) n p f d]"] exI [of _ "[]"])
        (simp add: collectorOf_def)
  next
    case False
    with off Inr show ?thesis
      by (intro exI [of _ "[]"] exI [of _ "[n]"]) simp
  qed
qed

lemma startAll_final:
  "\<exists>cs l. final (startAll w rows st) = st\<lparr>collectors := collectors st @ cs, disabledLog := disabledLog st @ l\<rparr>
     \<and> (\<forall>c \<in> set cs. CacheTag c = BuildCacheTag w cacheTag (AzureDevops (opts st)))"
proof (induction rows arbitrary: st)
  case Nil
  show ?case by (intro exI [of _ "[]"]) simp
next
  case (Cons row rows)
  obtain n p f t where row: "row = (n, p, f, t)" by (cases row) auto
  from startCollector_final [of w n p f t st] obtain cs l where
    h: "final (startCollector w n p f t st) = st\<lparr>collectors := collectors st @ cs, disabledLog := disabledLog st @ l\<rparr>"
    and tg: "\<forall>c \<in> set cs. CacheTag c = BuildCacheTag w cacheTag (AzureDevops (opts st))"
    by blast
  show ?case
  proof (cases "startCollector w n p f t st")
    case (Inl x)
    then have "startAll w (row # rows) st = startCollector w n p f t st"
      by (simp add: row)
    with h tg show ?thesis by auto
  next
    case (Inr s1)
    with h have s1: "s1 = st\<lparr>collectors := collectors st @ cs, disabledLog := disabledLog st @ l\<rparr>"
      by simp
    from Cons.IH [of s1] obtain cs' l' where
      h': "final (startAll w rows s1) = s1\<lparr>collectors := collectors s1 @ cs', disabledLog := disabledLog s1 @ l'\<rparr>"
      and tg': "\<forall>c \<in> set cs'. CacheTag c = BuildCacheTag w cacheTag (AzureDevops (opts s1))"
      by blast
    have "startAll w (row # rows) st = startAll w rows s1"
      by (simp add: row Inr)
    with h' tg' tg show ?thesis
      by (intro exI [of _ "cs @ cs'"] exI [of _ "l @ l'"]) (auto simp: s1)
  qed
qed

text \<open>The collectors a successful run over rows starts: the rows with a positive interval.\<close>

lemma startAll_Inr:
  assumes "startAll w rows st = Inr st'"
  shows "(\<forall>(n, p, f, t) \<in> set rows. t \<noteq> None) \<and>
         st' = st\<lparr>collectors := collectors st @
                    map (\<lambda>(n, p, f, t). collectorOf w (opts st) n p f (the t))
                      (filter (\<lambda>(n, p, f, t). 0 < the t) rows),
                  disabledLog := disabledLog st @
                    map fst (filter (\<lambda>(n, p, f, t). \<not> 0 < the t) rows)\<rparr>"
  using assms
proof (induction rows arbitrary: st)
  case Nil
  then show ?case by simp
next
  case (Cons row rows)
  obtain n p f t where row: "row = (n, p, f, t)" by (cases row) auto
  from Cons.prems obtain s1 where 1: "startCollector w n p f t st = Inr s1"
    and 2: "startAll w rows s1 = Inr st'"
    by (auto simp: row andThen_eq_Inr)
  from 1 obtain d where d: "t = Some d"
    and s1: "s1 = (if 0 < d then st\<lparr>collectors := collectors st @ [collectorOf w (opts st) n p f d]\<rparr>
                   else st\<lparr>disabledLog := disabledLog st @ [n]\<rparr>)"
    unfolding startCollector_Inr by (auto split: if_splits)
  from Cons.IH [OF 2] show ?case
    by (auto simp: row d s1)
qed

lemma startAll_snoc:
  "startAll w (rows @ [(n, p, f, t)]) st = andThen (startAll w rows st) (startCollector w n p f t)"
proof (induction rows arbitrary: st)
  case Nil
  show ?case by (cases "startCollector w n p f t st") simp_all
next
  case (Cons row rows)
  obtain n' p' f' t' where row: "row = (n', p', f', t')" by (cases row) auto
  show ?case
    by (cases "startCollector w n' p' f' t' st") (simp_all add: row Cons.IH)
qed

lemma startAll_opts: "startAll w rows st = Inr st' \<Longrightarrow> opts st' = opts st"
  by (drule startAll_Inr) simp

lemma startAll_step0:
  "andThen (startAll w rows st) (\<lambda>s. startCollector w n p f (sel (Scrape (opts s))) s) =
   startAll w (rows @ [(n, p, f, sel (Scrape (opts st)))]) st"
proof (cases "startAll w rows st")
  case (Inl x)
  then show ?thesis by (simp add: startAll_snoc)
next
  case (Inr s)
  then have "opts s = opts st" by (rule startAll_opts)
  with Inr show ?thesis by (simp add: startAll_snoc)
qed

lemma startAll_step:
  assumes "r = startAll w rows st"
  shows "andThen r (\<lambda>s. startCollector w n p f (sel (Scrape (opts s))) s) =
         startAll w (rows @ [(n, p, f, sel (Scrape (opts st)))]) st"
  unfolding assms by (rule startAll_step0)

lemma startAll_single:
  "startCollector w n p f t st = startAll w ([] @ [(n, p, f, t)]) st"
  by (cases "startCollector w n p f t st") simp_all

lemma initMetricCollector_table:
  "initMetricCollector w st = startAll w (collectorTable (opts st)) st"
proof -
  have "initMetricCollector w st =
        startAll w ((((((((((([]
          @ [(''Project'', MetricsCollectorProject, ''project.json'', TimeProjects (Scrape (opts st)))])
          @ [(''AgentPool'', MetricsCollectorAgentPool, ''agentpool.json'', TimeAgentPools (Scrape (opts st)))])
          @ [(''LatestBuild'', MetricsCollectorLatestBuild, ''latestbuild.json'', TimeBuild (Scrape (opts st)))])
          @ [(''Repository'', MetricsCollectorRepository, ''latestbuild.json'', TimeRepository (Scrape (opts st)))])
          @ [(''PullRequest'', MetricsCollectorPullRequest, ''pullrequest.json'', TimePullRequest (Scrape (opts st)))])
          @ [(''Build'', MetricsCollectorBuild, ''build.json'', TimeBuild (Scrape (opts st)))])
          @ [(''Release'', MetricsCollectorRelease, ''release.json'', TimeRelease (Scrape (opts st)))])
          @ [(''Deployment'', MetricsCollectorDeployment, ''deployment.json'', TimeDeployment (Scrape (opts st)))])
          @ [(''Stats'', MetricsCollectorStats, ''stats.json'', TimeStats (Scrape (opts st)))])
          @ [(''ResourceUsage'', MetricsCollectorResourceUsage, ''resourceusage.json'', TimeResourceUsage (Scrape (opts st)))])
          @ [(''Query'', MetricsCollectorQuery, ''query.json'', TimeQuery (Scrape (opts st)))]) st"
    unfolding initMetricCollector_def
    by (intro startAll_step startAll_single)
  then show ?thesis
    by (simp add: collectorTable_def)
qed


lemma initMetricCollector_final:
  "\<exists>cs l. final (initMetricCollector w st) = st\<lparr>collectors := collectors st @ cs, disabledLog := disabledLog st @ l\<rparr>
     \<and> (\<forall>c \<in> set cs. CacheTag c = BuildCacheTag w cacheTag (AzureDevops (opts st)))"
  unfolding initMetricCollector_table by (rule startAll_final)

lemma collectorTable_names: "distinct (map fst (collectorTable cfg))"
  by (simp add: collectorTable_def)

lemma startCollector_collectors:
  "0 < d \<Longrightarrow> collectors (final (startCollector w n p f (Some d) s)) =
     collectors s @ [collectorOf w (opts s) n p f d]"
  by (simp add: startCollector_def Seconds_pos collectorOf_def Let_def split: option.splits)

lemma startCollector_terminated:
  "0 < d \<Longrightarrow> terminated (startCollector w n p f (Some d) s) = None \<longleftrightarrow>
     Start w (collectorOf w (opts s) n p f d) = None"
  by (simp add: startCollector_def Seconds_pos collectorOf_def Let_def split: option.splits)

text \<open>
  Claim C3: a collector whose interval is at most 0 is never registered, and one whose
  interval is positive is registered with its interval and cache file. For one call of
  \<^verbatim>\<open>startCollector\<close> with interval \<open>d\<close>: if \<open>d \<le> 0\<close> the call returns the process state
  as it was but for the "collector disabled" log line (no collector is made, no scrape
  time or cache is set, \<^verbatim>\<open>Start\<close> is not called); if \<open>0 < d\<close> exactly one collector is
  added, with the given name and processor, scrape time \<open>d\<close>, the cache path of the
  given file name and the cache tag, and the call returns precisely when \<^verbatim>\<open>Start\<close> of
  that collector does not fail. For \<^verbatim>\<open>initMetricCollector\<close> as a whole, when it returns:
  for a row of its table with interval \<open>d \<le> 0\<close> every collector of the row's name was
  there before the call, and for a row with \<open>0 < d\<close> the row's collector, with interval
  \<open>d\<close> and the row's cache file, is among the collectors.
\<close>

theorem C3_interval_decides_registration:
  "(d \<le> 0 \<longrightarrow>
      startCollector w n p f (Some d) s = Inr (s\<lparr>disabledLog := disabledLog s @ [n]\<rparr>))
   \<and> (0 < d \<longrightarrow>
        collectors (final (startCollector w n p f (Some d) s)) =
          collectors s @
            [\<lparr>Name = n, Processor = p, ScrapeTime = d, CachePath = GetCachePath w (opts s) f,
              CacheTag = BuildCacheTag w cacheTag (AzureDevops (opts s))\<rparr>]
        \<and> (terminated (startCollector w n p f (Some d) s) = None \<longleftrightarrow>
             Start w \<lparr>Name = n, Processor = p, ScrapeTime = d, CachePath = GetCachePath w (opts s) f,
               CacheTag = BuildCacheTag w cacheTag (AzureDevops (opts s))\<rparr> = None))
   \<and> (\<forall>st'. initMetricCollector w s = Inr st'
          \<and> (n, p, f, Some d) \<in> set (collectorTable (opts s)) \<longrightarrow>
        (d \<le> 0 \<longrightarrow> (\<forall>c \<in> set (collectors st'). Name c = n \<longrightarrow> c \<in> set (collectors s)))
        \<and> (0 < d \<longrightarrow>
             \<lparr>Name = n, Processor = p, ScrapeTime = d, CachePath = GetCachePath w (opts s) f,
              CacheTag = BuildCacheTag w cacheTag (AzureDevops (opts s))\<rparr> \<in> set (collectors st')))"
proof (intro conjI allI impI)
  show "startCollector w n p f (Some d) s = Inr (s\<lparr>disabledLog := disabledLog s @ [n]\<rparr>)"
    if "d \<le> 0"
    using that by (simp add: startCollector_def Seconds_pos)
  show "collectors (final (startCollector w n p f (Some d) s)) =
          collectors s @
            [\<lparr>Name = n, Processor = p, ScrapeTime = d, CachePath = GetCachePath w (opts s) f,
              CacheTag = BuildCacheTag w cacheTag (AzureDevops (opts s))\<rparr>]"
    if "0 < d"
    using startCollector_collectors [OF that] by (simp add: collectorOf_def)
  show "terminated (startCollector w n p f (Some d) s) = None \<longleftrightarrow>
             Start w \<lparr>Name = n, Processor = p, ScrapeTime = d, CachePath = GetCachePath w (opts s) f,
               CacheTag = BuildCacheTag w cacheTag (AzureDevops (opts s))\<rparr> = None"
    if "0 < d"
    using startCollector_terminated [OF that] by (simp add: collectorOf_def)
next
  fix st'
  assume h: "initMetricCollector w s = Inr st' \<and> (n, p, f, Some d) \<in> set (collectorTable (opts s))"
  let ?rows = "collectorTable (opts s)"
  from h have run: "startAll w ?rows s = Inr st'"
    by (simp add: initMetricCollector_table)
  from h have row: "(n, p, f, Some d) \<in> set ?rows" by simp
  from startAll_Inr [OF run] have st': "collectors st' = collectors s @
        map (\<lambda>(n, p, f, t). collectorOf w (opts s) n p f (the t))
          (filter (\<lambda>(n, p, f, t). 0 < the t) ?rows)"
    by simp
  show "\<forall>c \<in> set (collectors st'). Name c = n \<longrightarrow> c \<in> set (collectors s)" if off: "d \<le> 0"
  proof (intro ballI impI, rule ccontr)
    fix c
    assume c: "c \<in> set (collectors st')" "Name c = n" "c \<notin> set (collectors s)"
    with st' obtain n' p' f' t' where row': "(n', p', f', t') \<in> set ?rows"
      and pos: "0 < the t'" and eq: "c = collectorOf w (opts s) n' p' f' (the t')"
      by auto
    from eq c(2) have "n' = n" by (simp add: collectorOf_def)
    with row row' have "(p', f', t') = (p, f, Some d)"
      using eq_key_imp_eq_value [OF collectorTable_names] by blast
    with pos off show False by simp
  qed
  show "\<lparr>Name = n, Processor = p, ScrapeTime = d, CachePath = GetCachePath w (opts s) f,
              CacheTag = BuildCacheTag w cacheTag (AzureDevops (opts s))\<rparr> \<in> set (collectors st')"
    if "0 < d"
  proof -
    have "collectorOf w (opts s) n p f d \<in> set (collectors st')"
      using that row by (force simp: st')
    then show ?thesis by (simp add: collectorOf_def)
  qed
qed

lemma final_andThen:
  "final (andThen r f) = (case r of Inl x \<Rightarrow> final r | Inr s \<Rightarrow> final (f s))"
  by (cases r) simp_all

lemma result_cases:
  obtains (halt) t s where "r = Inl (t, s)" | (go) s where "r = Inr s"
  by (cases r) auto

lemma not_terminated: "terminated r = None \<Longrightarrow> r = Inr (final r)"
  by (cases r rule: result_cases) simp_all

subsection \<open>What each phase leaves unchanged\<close>

lemma sel_andThen:
  assumes "sel (final r) = sel st" and "\<And>s. sel (final (f s)) = sel s"
  shows "sel (final (andThen r f)) = sel st"
proof (cases r rule: result_cases)
  case (halt t s)
  with assms(1) show ?thesis by simp
next
  case (go s)
  with assms(1) assms(2) [of s] show ?thesis by simp
qed

lemma populateEnv_keeps:
  "opts (final (populateEnv w k v st)) = opts st"
  "stdout (final (populateEnv w k v st)) = stdout st"
  "AzureDevopsClient (final (populateEnv w k v st)) = AzureDevopsClient st"
  "ServiceDiscovery (final (populateEnv w k v st)) = ServiceDiscovery st"
  "collectors (final (populateEnv w k v st)) = collectors st"
  "disabledLog (final (populateEnv w k v st)) = disabledLog st"
  "srv (final (populateEnv w k v st)) = srv st"
  by (simp_all add: populateEnv_def split: option.splits)

lemma populateEnv_Inl: "populateEnv w k v st = Inl (t, s) \<Longrightarrow> \<exists>e. t = Panic e"
  by (auto simp: populateEnv_def split: if_splits option.splits)

lemma newClient_keeps:
  "opts (newClient st) = opts st"
  "stdout (newClient st) = stdout st"
  "environ (newClient st) = environ st"
  "ServiceDiscovery (newClient st) = ServiceDiscovery st"
  "collectors (newClient st) = collectors st"
  "disabledLog (newClient st) = disabledLog st"
  "srv (newClient st) = srv st"
  by (simp_all add: newClient_def withClient_def Let_def split: option.splits)

lemma newClient_client: "\<exists>c. AzureDevopsClient (newClient st) = Some c"
  by (simp add: newClient_def withClient_def Let_def split: option.splits)

lemma selectAuth_keeps:
  "opts (final (selectAuth w st)) = opts st"
  "stdout (final (selectAuth w st)) = stdout st"
  "environ (final (selectAuth w st)) = environ st"
  "ServiceDiscovery (final (selectAuth w st)) = ServiceDiscovery st"
  "collectors (final (selectAuth w st)) = collectors st"
  "disabledLog (final (selectAuth w st)) = disabledLog st"
  "srv (final (selectAuth w st)) = srv st"
  by (simp_all add: selectAuth_def withClient_def Let_def split: option.splits)

lemma selectAuth_Inl: "selectAuth w st = Inl (t, s) \<Longrightarrow> \<exists>e. t = Fatal (AzAuthFailed e)"
  by (auto simp: selectAuth_def Let_def split: if_splits option.splits)

lemma selectAuth_Inr:
  "selectAuth w st = Inr st' \<Longrightarrow> AzureDevopsClient st \<noteq> None \<Longrightarrow>
   \<exists>c. AzureDevopsClient st' = Some c \<and>
        auth c = (if AccessToken (AzureDevops (opts st)) \<noteq> []
                  then AccessTokenAuth (AccessToken (AzureDevops (opts st))) else AzAuth)"
  by (auto simp: selectAuth_def withClient_def Let_def split: if_splits option.splits)

lemma configureClient_keeps:
  "opts (configureClient st) = opts st"
  "stdout (configureClient st) = stdout st"
  "environ (configureClient st) = environ st"
  "ServiceDiscovery (configureClient st) = ServiceDiscovery st"
  "collectors (configureClient st) = collectors st"
  "disabledLog (configureClient st) = disabledLog st"
  "srv (configureClient st) = srv st"
  "map_option auth (AzureDevopsClient (configureClient st)) = map_option auth (AzureDevopsClient st)"
  by (cases "AzureDevopsClient st"; simp add: configureClient_def withClient_def)+

lemma configureClient_limit:
  "map_option LimitProject (AzureDevopsClient (configureClient st)) =
   map_option (\<lambda>c. Project (Limit (opts st))) (AzureDevopsClient st)"
  by (cases "AzureDevopsClient st") (simp_all add: configureClient_def withClient_def)

lemma initAzureDevOpsConnection_keeps:
  "opts (final (initAzureDevOpsConnection w st)) = opts st"
  "stdout (final (initAzureDevOpsConnection w st)) = stdout st"
  "ServiceDiscovery (final (initAzureDevOpsConnection w st)) = ServiceDiscovery st"
  "collectors (final (initAzureDevOpsConnection w st)) = collectors st"
  "disabledLog (final (initAzureDevOpsConnection w st)) = disabledLog st"
  "srv (final (initAzureDevOpsConnection w st)) = srv st"
  unfolding initAzureDevOpsConnection_def
  by (intro sel_andThen;
      simp add: newClient_keeps populateEnv_keeps selectAuth_keeps configureClient_keeps)+

lemma initAzureDevOpsConnection_Inl:
  "initAzureDevOpsConnection w st = Inl (t, s) \<Longrightarrow> exit_status t \<noteq> 0 \<and> t \<noteq> Exit 1"
  unfolding initAzureDevOpsConnection_def andThen_eq_Inl
  by (auto dest: populateEnv_Inl selectAuth_Inl)

lemma updateServiceDiscovery_keeps:
  "opts (final (updateServiceDiscovery w st)) = opts st"
  "stdout (final (updateServiceDiscovery w st)) = stdout st"
  "environ (final (updateServiceDiscovery w st)) = environ st"
  "AzureDevopsClient (final (updateServiceDiscovery w st)) = AzureDevopsClient st"
  "collectors (final (updateServiceDiscovery w st)) = collectors st"
  "disabledLog (final (updateServiceDiscovery w st)) = disabledLog st"
  "srv (final (updateServiceDiscovery w st)) = srv st"
  by (simp_all add: updateServiceDiscovery_def split: option.splits)

lemma initMetricCollector_keeps:
  "opts (final (initMetricCollector w st)) = opts st"
  "stdout (final (initMetricCollector w st)) = stdout st"
  "environ (final (initMetricCollector w st)) = environ st"
  "AzureDevopsClient (final (initMetricCollector w st)) = AzureDevopsClient st"
  "ServiceDiscovery (final (initMetricCollector w st)) = ServiceDiscovery st"
  "srv (final (initMetricCollector w st)) = srv st"
  using initMetricCollector_final [of w st] by auto

lemma startHttpServer_keeps:
  "opts (final (startHttpServer w st)) = opts st"
  "stdout (final (startHttpServer w st)) = stdout st"
  "environ (final (startHttpServer w st)) = environ st"
  "AzureDevopsClient (final (startHttpServer w st)) = AzureDevopsClient st"
  "ServiceDiscovery (final (startHttpServer w st)) = ServiceDiscovery st"
  "collectors (final (startHttpServer w st)) = collectors st"
  "disabledLog (final (startHttpServer w st)) = disabledLog st"
  by (simp_all add: startHttpServer_def Let_def split: option.splits)


lemma parseArguments_keeps:
  "environ (final (parseArguments w st)) = environ st"
  "AzureDevopsClient (final (parseArguments w st)) = AzureDevopsClient st"
  "ServiceDiscovery (final (parseArguments w st)) = ServiceDiscovery st"
  "collectors (final (parseArguments w st)) = collectors st"
  "disabledLog (final (parseArguments w st)) = disabledLog st"
  "srv (final (parseArguments w st)) = srv st"
  by (simp_all add: parseArguments_def Let_def split: option.splits)

lemma loadAccessToken_keeps:
  "stdout (final (loadAccessToken w st)) = stdout st"
  "environ (final (loadAccessToken w st)) = environ st"
  "AzureDevopsClient (final (loadAccessToken w st)) = AzureDevopsClient st"
  "ServiceDiscovery (final (loadAccessToken w st)) = ServiceDiscovery st"
  "collectors (final (loadAccessToken w st)) = collectors st"
  "disabledLog (final (loadAccessToken w st)) = disabledLog st"
  "srv (final (loadAccessToken w st)) = srv st"
  by (simp_all add: loadAccessToken_def split: option.splits sum.splits)

lemma checkCredentials_keeps:
  "opts (final (checkCredentials st)) = opts st"
  "stdout (final (checkCredentials st)) = stdout st"
  "environ (final (checkCredentials st)) = environ st"
  "AzureDevopsClient (final (checkCredentials st)) = AzureDevopsClient st"
  "ServiceDiscovery (final (checkCredentials st)) = ServiceDiscovery st"
  "collectors (final (checkCredentials st)) = collectors st"
  "disabledLog (final (checkCredentials st)) = disabledLog st"
  "srv (final (checkCredentials st)) = srv st"
  by (simp_all add: checkCredentials_def)

lemma checkQueries_keeps:
  "opts (final (checkQueries st)) = opts st"
  "environ (final (checkQueries st)) = environ st"
  "AzureDevopsClient (final (checkQueries st)) = AzureDevopsClient st"
  "ServiceDiscovery (final (checkQueries st)) = ServiceDiscovery st"
  "collectors (final (checkQueries st)) = collectors st"
  "disabledLog (final (checkQueries st)) = disabledLog st"
  "srv (final (checkQueries st)) = srv st"
  by (simp_all add: checkQueries_eq Let_def)

lemma checkDeprecatedEnv_keeps:
  "opts (final (checkDeprecatedEnv st)) = opts st"
  "stdout (final (checkDeprecatedEnv st)) = stdout st"
  "environ (final (checkDeprecatedEnv st)) = environ st"
  "AzureDevopsClient (final (checkDeprecatedEnv st)) = AzureDevopsClient st"
  "ServiceDiscovery (final (checkDeprecatedEnv st)) = ServiceDiscovery st"
  "collectors (final (checkDeprecatedEnv st)) = collectors st"
  "disabledLog (final (checkDeprecatedEnv st)) = disabledLog st"
  "srv (final (checkDeprecatedEnv st)) = srv st"
  by (simp_all add: checkDeprecatedEnv_def)

lemma initArgparser_keeps:
  "environ (final (initArgparser w st)) = environ st"
  "AzureDevopsClient (final (initArgparser w st)) = AzureDevopsClient st"
  "ServiceDiscovery (final (initArgparser w st)) = ServiceDiscovery st"
  "collectors (final (initArgparser w st)) = collectors st"
  "disabledLog (final (initArgparser w st)) = disabledLog st"
  "srv (final (initArgparser w st)) = srv st"
  unfolding initArgparser_def
  by (intro sel_andThen;
      simp add: parseArguments_keeps loadAccessToken_keeps checkCredentials_keeps
        checkQueries_keeps checkDeprecatedEnv_keeps)+

lemma initArgparser_parse_error:
  "ParseErr w = Some e \<Longrightarrow>
   terminated (initArgparser w st) = Some (if e = FlagsError ErrHelp then Exit 0 else Exit 1)"
  by (simp add: initArgparser_def parseArguments_def Let_def)

lemma initArgparser_loaded:
  assumes "ParseErr w = None" and "loadAccessToken w (st0\<lparr>opts := ParsedOpts w\<rparr>) = Inr st"
  shows "initArgparser w st0 =
         andThen (andThen (checkCredentials st) checkQueries)
           (\<lambda>st. checkDeprecatedEnv (st\<lparr>opts := useDefaultScrapeTime (opts st)\<rparr>))"
  by (simp add: initArgparser_def parseArguments_def assms)

lemma initArgparser_Inl_status:
  assumes "ParseErr w = None" and "initArgparser w st0 = Inl (t, s)"
  shows "exit_status t = 1"
  using assms
  unfolding initArgparser_def andThen_eq_Inl
  by (auto simp: parseArguments_def loadAccessToken_def checkCredentials_def checkQueries_eq
      checkDeprecatedEnv_def Let_def split: option.splits sum.splits if_splits)

lemma main_Inl_argparser: "initArgparser w (proc0 w) = Inl x \<Longrightarrow> main w = Inl x"
  by (simp add: main_def)

lemma main_Inl_connection:
  "initArgparser w (proc0 w) = Inr s1 \<Longrightarrow> initAzureDevOpsConnection w s1 = Inl x \<Longrightarrow> main w = Inl x"
  by (simp add: main_def)

lemma main_after_argparser:
  assumes "initArgparser w (proc0 w) = Inr s1"
  shows "opts (final (main w)) = opts s1" and "stdout (final (main w)) = stdout s1"
  unfolding main_def assms
  by (simp; intro sel_andThen;
      simp add: initAzureDevOpsConnection_keeps updateServiceDiscovery_keeps
        initMetricCollector_keeps startHttpServer_keeps)+

lemma main_after_connection:
  assumes "initArgparser w (proc0 w) = Inr s1" and "initAzureDevOpsConnection w s1 = Inr s2"
  shows "AzureDevopsClient (final (main w)) = AzureDevopsClient s2"
proof -
  have "main w = andThen (andThen (updateServiceDiscovery w s2) (initMetricCollector w)) (startHttpServer w)"
    by (simp add: main_def assms)
  then show ?thesis
    by (simp only:, intro sel_andThen)
      (simp_all add: updateServiceDiscovery_keeps initMetricCollector_keeps startHttpServer_keeps)
qed

lemma main_Inr:
  assumes "terminated (main w) = None"
  obtains s1 s2 s3 s4 where "initArgparser w (proc0 w) = Inr s1"
    and "initAzureDevOpsConnection w s1 = Inr s2"
    and "updateServiceDiscovery w s2 = Inr s3"
    and "initMetricCollector w s3 = Inr s4"
    and "startHttpServer w s4 = Inr (final (main w))"
proof -
  define r where "r = final (main w)"
  from assms have "main w = Inr r" unfolding r_def by (rule not_terminated)
  then obtain s1 s2 s3 s4 where "initArgparser w (proc0 w) = Inr s1"
    and "initAzureDevOpsConnection w s1 = Inr s2"
    and "updateServiceDiscovery w s2 = Inr s3"
    and "initMetricCollector w s3 = Inr s4"
    and "startHttpServer w s4 = Inr r"
    unfolding main_def andThen_eq_Inr by blast
  then show ?thesis using that unfolding r_def by blast
qed


subsection \<open>Runs that reach the HTTP server\<close>

lemma Inr_final: "r = Inr s \<Longrightarrow> final r = s"
  by simp

lemma initArgparser_passes:
  assumes "ParseErr w = None"
    and "loadAccessToken w (st0\<lparr>opts := ParsedOpts w\<rparr>) = Inr st"
    and "checkCredentials st = Inr st"
    and "\<forall>q \<in> set (QueriesWithProjects (AzureDevops (opts st))). Count q (CHR ''@'') = 1"
    and "environ st0 ''AZURE_DEVOPS_FILTER_AGENTPOOL'' = []"
  shows "initArgparser w st0 = Inr (st\<lparr>opts := useDefaultScrapeTime (opts st)\<rparr>)"
proof -
  have bad: "filter (\<lambda>q. Count q (CHR ''@'') \<noteq> 1) (QueriesWithProjects (AzureDevops (opts st))) = []"
    using assms(4) by (simp add: filter_empty_conv)
  have env: "environ st = environ st0"
    using loadAccessToken_keeps(2) [of w "st0\<lparr>opts := ParsedOpts w\<rparr>"] assms(2) by simp
  show ?thesis
    unfolding initArgparser_loaded [OF assms(1,2)]
    using bad by (simp add: assms(3) checkQueries_eq checkDeprecatedEnv_def env assms(5))
qed

lemma initAzureDevOpsConnection_passes:
  assumes "\<forall>k v. SetenvErr w k v = None"
    and "AccessToken (AzureDevops (opts st)) \<noteq> [] \<or> (\<forall>env. UseAzAuth w env = None)"
  shows "terminated (initAzureDevOpsConnection w st) = None"
proof -
  have env: "terminated (populateEnv w k v s) = None" for k v s
    using assms(1) by (simp add: populateEnv_def)
  have au: "terminated (selectAuth w s) = None" if "opts s = opts st" for s
    using assms(2) that by (auto simp: selectAuth_def withClient_def Let_def)
  have step: "terminated (andThen r f) = None"
    if "terminated r = None" "opts (final r) = opts st"
      "\<And>s. opts s = opts st \<Longrightarrow> terminated (f s) = None" for r f
    using that by (cases r rule: result_cases) simp_all
  show ?thesis
    unfolding initAzureDevOpsConnection_def
    by (intro step sel_andThen; simp add: env au newClient_keeps populateEnv_keeps selectAuth_keeps)
qed

lemma initAzureDevOpsConnection_auth:
  assumes "initAzureDevOpsConnection w st = Inr st'"
  shows "\<exists>c. AzureDevopsClient st' = Some c \<and>
           auth c = (if AccessToken (AzureDevops (opts st)) \<noteq> []
                     then AccessTokenAuth (AccessToken (AzureDevops (opts st))) else AzAuth) \<and>
           LimitProject c = Project (Limit (opts st))"
proof -
  from assms obtain s1 s2 s3 s4 where
    1: "populateEnv w ''AZURE_TENANT_ID'' (TenantId (Azure (opts (newClient st)))) (newClient st) = Inr s1"
    and 2: "populateEnv w ''AZURE_CLIENT_ID'' (ClientId (Azure (opts s1))) s1 = Inr s2"
    and 3: "populateEnv w ''AZURE_CLIENT_SECRET'' (ClientSecret (Azure (opts s2))) s2 = Inr s3"
    and 4: "selectAuth w s3 = Inr s4" and 5: "st' = configureClient s4"
    unfolding initAzureDevOpsConnection_def andThen_eq_Inr by auto
  have k1: "AzureDevopsClient s1 = AzureDevopsClient (newClient st)" "opts s1 = opts st"
    using populateEnv_keeps(1,3)
      [of w "''AZURE_TENANT_ID''" "TenantId (Azure (opts (newClient st)))" "newClient st"]
    unfolding Inr_final [OF 1] by (simp_all add: newClient_keeps)
  have k2: "AzureDevopsClient s2 = AzureDevopsClient s1" "opts s2 = opts s1"
    using populateEnv_keeps(1,3) [of w "''AZURE_CLIENT_ID''" "ClientId (Azure (opts s1))" s1]
    unfolding Inr_final [OF 2] by simp_all
  have k3: "AzureDevopsClient s3 = AzureDevopsClient s2" "opts s3 = opts s2"
    using populateEnv_keeps(1,3) [of w "''AZURE_CLIENT_SECRET''" "ClientSecret (Azure (opts s2))" s2]
    unfolding Inr_final [OF 3] by simp_all
  from newClient_client [of st] k1 k2 k3 have "AzureDevopsClient s3 \<noteq> None" by auto
  from selectAuth_Inr [OF 4 this] obtain c where
    c: "AzureDevopsClient s4 = Some c"
    "auth c = (if AccessToken (AzureDevops (opts st)) \<noteq> []
               then AccessTokenAuth (AccessToken (AzureDevops (opts st))) else AzAuth)"
    using k1 k2 k3 by auto
  have "opts s4 = opts st"
    using selectAuth_keeps(1) [of w s3] unfolding Inr_final [OF 4] by (simp add: k1 k2 k3)
  with c show ?thesis
    by (simp add: 5 configureClient_def withClient_def)
qed

lemma startAll_passes:
  assumes "\<forall>(n, p, f, t) \<in> set rows. t \<noteq> None" and "\<forall>c. Start w c = None"
  shows "terminated (startAll w rows st) = None"
  using assms(1)
proof (induction rows arbitrary: st)
  case Nil
  show ?case by simp
next
  case (Cons row rows)
  obtain n p f t where row: "row = (n, p, f, t)" by (cases row) auto
  with Cons.prems obtain d where d: "t = Some d" by auto
  have "\<exists>s. startCollector w n p f t st = Inr s"
    by (simp add: startCollector_def d assms(2) Let_def)
  then obtain s where "startCollector w n p f t st = Inr s" ..
  with Cons show ?case by (simp add: row)
qed

lemma main_serving:
  assumes "initArgparser w (proc0 w) = Inr s1"
    and "\<forall>k v. SetenvErr w k v = None"
    and "AccessToken (AzureDevops (opts s1)) \<noteq> [] \<or> (\<forall>env. UseAzAuth w env = None)"
    and "DiscoveryUpdate w = None"
    and "\<forall>(n, p, f, t) \<in> set (collectorTable (opts s1)). t \<noteq> None"
    and "\<forall>c. Start w c = None"
    and "ListenAndServe w = None"
  shows "terminated (main w) = None"
    and "collectors (final (main w)) = collectors s1 @
           map (\<lambda>(n, p, f, t). collectorOf w (opts s1) n p f (the t))
             (filter (\<lambda>(n, p, f, t). 0 < the t) (collectorTable (opts s1)))"
    and "srv (final (main w)) \<noteq> None"
proof -
  from initAzureDevOpsConnection_passes [OF assms(2,3)]
  obtain s2 where 2: "initAzureDevOpsConnection w s1 = Inr s2"
    using not_terminated by blast
  have k2: "opts s2 = opts s1" "collectors s2 = collectors s1"
    using initAzureDevOpsConnection_keeps(1,4) [of w s1] 2 by simp_all
  define s3 where "s3 = s2\<lparr>ServiceDiscovery := True\<rparr>"
  have 3: "updateServiceDiscovery w s2 = Inr s3"
    by (simp add: updateServiceDiscovery_def assms(4) s3_def)
  have k3: "opts s3 = opts s1" "collectors s3 = collectors s1"
    by (simp_all add: s3_def k2)
  from startAll_passes [of "collectorTable (opts s3)" w s3] assms(5,6)
  obtain s4 where 4: "startAll w (collectorTable (opts s3)) s3 = Inr s4"
    using not_terminated k3(1) by metis
  from startAll_Inr [OF 4] have k4: "collectors s4 = collectors s1 @
           map (\<lambda>(n, p, f, t). collectorOf w (opts s1) n p f (the t))
             (filter (\<lambda>(n, p, f, t). 0 < the t) (collectorTable (opts s1)))"
    by (simp add: k3)
  have m: "main w = startHttpServer w s4"
    by (simp add: main_def assms(1) 2 3 initMetricCollector_table 4)
  show "terminated (main w) = None"
    by (simp add: m startHttpServer_def assms(7) Let_def)
  show "collectors (final (main w)) = collectors s1 @
           map (\<lambda>(n, p, f, t). collectorOf w (opts s1) n p f (the t))
             (filter (\<lambda>(n, p, f, t). 0 < the t) (collectorTable (opts s1)))"
    by (simp add: m startHttpServer_keeps k4)
  show "srv (final (main w)) \<noteq> None"
    by (simp add: m startHttpServer_def assms(7) Let_def)
qed


subsection \<open>Credentials, query filters, token file, cache tag, authentication, exit status\<close>

lemma loaded_from_proc0:
  assumes "loadAccessToken w ((proc0 w)\<lparr>opts := ParsedOpts w\<rparr>) = Inr st"
  shows "stdout st = []" and "AzureDevopsClient st = None" and "srv st = None"
    and "collectors st = []" and "environ st = Getenv w"
  using loadAccessToken_keeps [of w "(proc0 w)\<lparr>opts := ParsedOpts w\<rparr>"]
  unfolding Inr_final [OF assms] by (simp_all add: proc0_def)

lemma initArgparser_AzureDevops:
  assumes "ParseErr w = None" and "loadAccessToken w (st0\<lparr>opts := ParsedOpts w\<rparr>) = Inr st"
  shows "AzureDevops (opts (final (initArgparser w st0))) = AzureDevops (opts st)"
  unfolding initArgparser_loaded [OF assms]
  by (intro sel_andThen [where sel = "\<lambda>s. AzureDevops (opts s)"])
    (simp_all add: checkCredentials_keeps checkQueries_keeps checkDeprecatedEnv_keeps)

text \<open>
  Claim C2, amended: when the arguments parse and the token file, if any, is read, the
  credential check of lines 86-88 reads the token, the tenant id and the client id only.
  If the token (after loading the token file) is empty and the tenant id or the client
  id is empty, startup ends with the fatal "neither a token nor client credentials"
  error in exactly that state, before an HTTP server exists; if a token is present, or
  tenant id and client id are both present, the check passes, whatever the client
  secret is, and \<^verbatim>\<open>initArgparser\<close> does not end with that error.
\<close>

theorem C2_credential_check:
  assumes "ParseErr w = None"
    and "loadAccessToken w ((proc0 w)\<lparr>opts := ParsedOpts w\<rparr>) = Inr st"
  shows "(AccessToken (AzureDevops (opts st)) = []
            \<and> (TenantId (Azure (opts st)) = [] \<or> ClientId (Azure (opts st)) = [])
          \<longrightarrow> main w = Inl (Fatal NoCredentials, st) \<and> srv st = None)
       \<and> (AccessToken (AzureDevops (opts st)) \<noteq> []
            \<or> (TenantId (Azure (opts st)) \<noteq> [] \<and> ClientId (Azure (opts st)) \<noteq> [])
          \<longrightarrow> checkCredentials st = Inr st
              \<and> terminated (initArgparser w (proc0 w)) \<noteq> Some (Fatal NoCredentials))"
proof (intro conjI impI)
  assume bad: "AccessToken (AzureDevops (opts st)) = []
      \<and> (TenantId (Azure (opts st)) = [] \<or> ClientId (Azure (opts st)) = [])"
  then have "checkCredentials st = Inl (Fatal NoCredentials, st)"
    by (auto simp: checkCredentials_def)
  then have "initArgparser w (proc0 w) = Inl (Fatal NoCredentials, st)"
    by (simp add: initArgparser_loaded [OF assms])
  then show "main w = Inl (Fatal NoCredentials, st)"
    by (rule main_Inl_argparser)
  show "srv st = None"
    by (rule loaded_from_proc0 [OF assms(2)])
next
  assume good: "AccessToken (AzureDevops (opts st)) \<noteq> []
      \<or> (TenantId (Azure (opts st)) \<noteq> [] \<and> ClientId (Azure (opts st)) \<noteq> [])"
  then show ok: "checkCredentials st = Inr st"
    by (auto simp: checkCredentials_def)
  show "terminated (initArgparser w (proc0 w)) \<noteq> Some (Fatal NoCredentials)"
    by (simp add: initArgparser_loaded [OF assms] ok checkQueries_eq checkDeprecatedEnv_def
        Let_def)
qed

text \<open>
  Claim C4, amended: when the arguments parse, the token file, if any, is read and the
  credential check passes, then for every query filter that does not contain exactly
  one \<open>@\<close> the process exits with status 1, the validation message for that filter is
  among the lines printed, and neither the API client nor the HTTP server exists when
  it exits; and if every filter contains exactly one \<open>@\<close>, the check of lines 91-102
  passes and prints nothing, whether or not the two parts are UUIDs.
\<close>

theorem C4_query_without_single_at:
  assumes "ParseErr w = None"
    and "loadAccessToken w ((proc0 w)\<lparr>opts := ParsedOpts w\<rparr>) = Inr st"
    and "checkCredentials st = Inr st"
  shows "(\<forall>q \<in> set (QueriesWithProjects (AzureDevops (opts st))).
            Count q (CHR ''@'') \<noteq> 1 \<longrightarrow>
              terminated (main w) = Some (Exit 1)
              \<and> malformedLine q \<in> set (stdout (final (main w)))
              \<and> AzureDevopsClient (final (main w)) = None
              \<and> srv (final (main w)) = None)
       \<and> ((\<forall>q \<in> set (QueriesWithProjects (AzureDevops (opts st))). Count q (CHR ''@'') = 1)
            \<longrightarrow> checkQueries st = Inr st)"
proof (intro conjI ballI impI)
  fix q
  assume q: "q \<in> set (QueriesWithProjects (AzureDevops (opts st)))" "Count q (CHR ''@'') \<noteq> 1"
  let ?bad = "filter (\<lambda>q. Count q (CHR ''@'') \<noteq> 1) (QueriesWithProjects (AzureDevops (opts st)))"
  from q have ne: "?bad \<noteq> []" by (auto simp: filter_empty_conv)
  then have "checkQueries st = Inl (Exit 1, st\<lparr>stdout := stdout st @ map malformedLine ?bad\<rparr>)"
    by (simp add: checkQueries_eq Let_def)
  then have "initArgparser w (proc0 w) = Inl (Exit 1, st\<lparr>stdout := stdout st @ map malformedLine ?bad\<rparr>)"
    by (simp add: initArgparser_loaded [OF assms(1,2)] assms(3))
  then have m: "main w = Inl (Exit 1, st\<lparr>stdout := stdout st @ map malformedLine ?bad\<rparr>)"
    by (rule main_Inl_argparser)
  show "terminated (main w) = Some (Exit 1)" by (simp add: m)
  show "malformedLine q \<in> set (stdout (final (main w)))" using q by (simp add: m)
  show "AzureDevopsClient (final (main w)) = None"
    by (simp add: m loaded_from_proc0 [OF assms(2)])
  show "srv (final (main w)) = None"
    by (simp add: m loaded_from_proc0 [OF assms(2)])
next
  assume "\<forall>q \<in> set (QueriesWithProjects (AzureDevops (opts st))). Count q (CHR ''@'') = 1"
  then have "filter (\<lambda>q. Count q (CHR ''@'') \<noteq> 1) (QueriesWithProjects (AzureDevops (opts st))) = []"
    by (simp add: filter_empty_conv)
  then show "checkQueries st = Inr st"
    by (simp add: checkQueries_eq Let_def)
qed

text \<open>
  Claim C10: when the arguments parse and a non-empty token file path is given, then,
  if the file can be read, the access token in the options of the state \<^verbatim>\<open>main\<close> ends
  or serves in is the file's content with \<^verbatim>\<open>strings.TrimSpace\<close> applied, whatever token
  was given directly, and a process that reaches serving authenticates with that token
  (or by token acquisition if the trimmed content is empty); if the file cannot be
  read, \<^verbatim>\<open>main\<close> ends with the fatal "unable to read access token file" error in the
  state right after parsing, whatever the credentials are: the credential check is
  not reached.
\<close>

theorem C10_token_from_file:
  assumes "ParseErr w = None"
    and "AccessTokenFile (AzureDevops (ParsedOpts w)) = Some f"
    and "f \<noteq> []"
  shows "(\<forall>content. ReadFile w f = Inr content \<longrightarrow>
            AccessToken (AzureDevops (opts (final (main w)))) = TrimSpace w content
            \<and> (terminated (main w) = None \<longrightarrow>
                 (\<exists>c. AzureDevopsClient (final (main w)) = Some c
                   \<and> auth c = (if TrimSpace w content \<noteq> []
                               then AccessTokenAuth (TrimSpace w content) else AzAuth))))
       \<and> (\<forall>err. ReadFile w f = Inl err \<longrightarrow>
            main w = Inl (Fatal (TokenFileUnreadable f err), (proc0 w)\<lparr>opts := ParsedOpts w\<rparr>))"
proof (intro conjI allI impI)
  fix content
  assume rd: "ReadFile w f = Inr content"
  let ?st = "(proc0 w)\<lparr>opts := setAccessToken (TrimSpace w content) (ParsedOpts w)\<rparr>"
  have ld: "loadAccessToken w ((proc0 w)\<lparr>opts := ParsedOpts w\<rparr>) = Inr ?st"
    using assms(2,3) rd by (simp add: loadAccessToken_def)
  have "AzureDevops (opts (final (initArgparser w (proc0 w)))) = AzureDevops (opts ?st)"
    by (rule initArgparser_AzureDevops [OF assms(1) ld])
  then have tok: "AccessToken (AzureDevops (opts (final (initArgparser w (proc0 w))))) = TrimSpace w content"
    by simp
  show "AccessToken (AzureDevops (opts (final (main w)))) = TrimSpace w content"
  proof (cases "initArgparser w (proc0 w)")
    case (Inl x)
    with tok main_Inl_argparser [OF Inl] show ?thesis by simp
  next
    case (Inr s1)
    with tok main_after_argparser(1) [OF Inr] show ?thesis by simp
  qed
  show "\<exists>c. AzureDevopsClient (final (main w)) = Some c
          \<and> auth c = (if TrimSpace w content \<noteq> []
                      then AccessTokenAuth (TrimSpace w content) else AzAuth)"
    if "terminated (main w) = None"
  proof -
    from that obtain s1 s2 where 1: "initArgparser w (proc0 w) = Inr s1"
      and 2: "initAzureDevOpsConnection w s1 = Inr s2"
      by (rule main_Inr)
    from tok 1 have "AccessToken (AzureDevops (opts s1)) = TrimSpace w content" by simp
    with initAzureDevOpsConnection_auth [OF 2] main_after_connection [OF 1 2]
    show ?thesis by auto
  qed
next
  fix err
  assume "ReadFile w f = Inl err"
  then have "initArgparser w (proc0 w) =
      Inl (Fatal (TokenFileUnreadable f err), (proc0 w)\<lparr>opts := ParsedOpts w\<rparr>)"
    using assms by (simp add: initArgparser_def parseArguments_def loadAccessToken_def)
  then show "main w = Inl (Fatal (TokenFileUnreadable f err), (proc0 w)\<lparr>opts := ParsedOpts w\<rparr>)"
    by (rule main_Inl_argparser)
qed


lemma inv_andThen:
  assumes "I (final r)" and "\<And>s. I s \<Longrightarrow> I (final (f s))"
  shows "I (final (andThen r f))"
  using assms by (cases r rule: result_cases) simp_all

lemma main_collectors_tagged:
  "\<forall>c \<in> set (collectors (final (main w))).
     CacheTag c = BuildCacheTag w cacheTag (AzureDevops (opts (final (main w))))"
  unfolding main_def
proof (intro inv_andThen [where I = "\<lambda>s. \<forall>c \<in> set (collectors s).
         CacheTag c = BuildCacheTag w cacheTag (AzureDevops (opts s))"])
  show "\<forall>c \<in> set (collectors (final (initArgparser w (proc0 w)))).
     CacheTag c = BuildCacheTag w cacheTag (AzureDevops (opts (final (initArgparser w (proc0 w)))))"
    by (simp add: initArgparser_keeps proc0_def)
next
  fix s :: "('a, 'b) proc"
  assume "\<forall>c \<in> set (collectors s). CacheTag c = BuildCacheTag w cacheTag (AzureDevops (opts s))"
  then show "\<forall>c \<in> set (collectors (final (initAzureDevOpsConnection w s))).
     CacheTag c = BuildCacheTag w cacheTag (AzureDevops (opts (final (initAzureDevOpsConnection w s))))"
    by (simp add: initAzureDevOpsConnection_keeps)
next
  fix s :: "('a, 'b) proc"
  assume "\<forall>c \<in> set (collectors s). CacheTag c = BuildCacheTag w cacheTag (AzureDevops (opts s))"
  then show "\<forall>c \<in> set (collectors (final (updateServiceDiscovery w s))).
     CacheTag c = BuildCacheTag w cacheTag (AzureDevops (opts (final (updateServiceDiscovery w s))))"
    by (simp add: updateServiceDiscovery_keeps)
next
  fix s :: "('a, 'b) proc"
  assume "\<forall>c \<in> set (collectors s). CacheTag c = BuildCacheTag w cacheTag (AzureDevops (opts s))"
  then show "\<forall>c \<in> set (collectors (final (initMetricCollector w s))).
     CacheTag c = BuildCacheTag w cacheTag (AzureDevops (opts (final (initMetricCollector w s))))"
    using initMetricCollector_final [of w s] by auto
next
  fix s :: "('a, 'b) proc"
  assume "\<forall>c \<in> set (collectors s). CacheTag c = BuildCacheTag w cacheTag (AzureDevops (opts s))"
  then show "\<forall>c \<in> set (collectors (final (startHttpServer w s))).
     CacheTag c = BuildCacheTag w cacheTag (AzureDevops (opts (final (startHttpServer w s))))"
    by (simp add: startHttpServer_keeps)
qed

text \<open>
  Claim C5, amended: the cache tag of every collector is
  \<^verbatim>\<open>BuildCacheTag(cacheTag, opts.AzureDevops)\<close>, a function of the option group
  \<^verbatim>\<open>AzureDevops\<close> (organisation, API version, filters) of the running configuration
  and of nothing else; the result-count limits, which are the separate group
  \<^verbatim>\<open>Limit\<close>, do not enter it. So two runs with the same \<^verbatim>\<open>BuildCacheTag\<close> whose
  \<^verbatim>\<open>AzureDevops\<close> groups are equal give their collectors equal tags, and if
  \<^verbatim>\<open>BuildCacheTag\<close> is injective in its value argument, two runs whose \<^verbatim>\<open>AzureDevops\<close>
  groups differ give their collectors different tags.
\<close>

theorem C5_cache_tag_of_AzureDevops_options:
  "(\<forall>c \<in> set (collectors (final (main w))).
      CacheTag c = BuildCacheTag w cacheTag (AzureDevops (opts (final (main w)))))
   \<and> (\<forall>w' c c'. BuildCacheTag w' = BuildCacheTag w
          \<and> c \<in> set (collectors (final (main w))) \<and> c' \<in> set (collectors (final (main w')))
        \<longrightarrow> (AzureDevops (opts (final (main w'))) = AzureDevops (opts (final (main w)))
               \<longrightarrow> CacheTag c' = CacheTag c)
           \<and> (inj (BuildCacheTag w cacheTag)
                \<and> AzureDevops (opts (final (main w'))) \<noteq> AzureDevops (opts (final (main w)))
               \<longrightarrow> CacheTag c' \<noteq> CacheTag c))"
proof -
  have same: "CacheTag c' = CacheTag c"
    if "BuildCacheTag w' = BuildCacheTag w" "c \<in> set (collectors (final (main w)))"
      "c' \<in> set (collectors (final (main w')))"
      "AzureDevops (opts (final (main w'))) = AzureDevops (opts (final (main w)))"
    for w' c c'
    using that main_collectors_tagged [of w] main_collectors_tagged [of w'] by simp
  have other: "CacheTag c' \<noteq> CacheTag c"
    if "BuildCacheTag w' = BuildCacheTag w" "c \<in> set (collectors (final (main w)))"
      "c' \<in> set (collectors (final (main w')))"
      "inj (BuildCacheTag w cacheTag)"
      "AzureDevops (opts (final (main w'))) \<noteq> AzureDevops (opts (final (main w)))"
    for w' c c'
    using that main_collectors_tagged [of w] main_collectors_tagged [of w']
    by (auto dest: injD)
  from main_collectors_tagged [of w] same other show ?thesis
    by blast
qed

lemma populateEnv_Inl_cause:
  "populateEnv w k v st = Inl (t, s) \<Longrightarrow> \<exists>e. SetenvErr w k v = Some e"
  by (auto simp: populateEnv_def split: if_splits option.splits)

lemma selectAuth_Inl_cause:
  "selectAuth w st = Inl (t, s) \<Longrightarrow>
   \<exists>e. UseAzAuth w (environ st) = Some e \<and> t = Fatal (AzAuthFailed e)"
  by (auto simp: selectAuth_def withClient_def Let_def split: if_splits option.splits)

lemma initAzureDevOpsConnection_env:
  assumes "\<forall>k v. SetenvErr w k v = None"
  shows "initAzureDevOpsConnection w st =
         andThen (selectAuth w ((newClient st)\<lparr>environ := azEnviron (Azure (opts st)) (environ st)\<rparr>))
           (\<lambda>st. Inr (configureClient st))"
proof -
  have p: "populateEnv w k v s = Inr (if v \<noteq> [] then s\<lparr>environ := (environ s)(k := v)\<rparr> else s)"
    for k v and s :: "('a, 'b) proc"
    using assms by (simp add: populateEnv_def)
  have "andThen (andThen (populateEnv w ''AZURE_TENANT_ID'' (TenantId (Azure (opts (newClient st)))) (newClient st))
          (\<lambda>st. populateEnv w ''AZURE_CLIENT_ID'' (ClientId (Azure (opts st))) st))
          (\<lambda>st. populateEnv w ''AZURE_CLIENT_SECRET'' (ClientSecret (Azure (opts st))) st) =
        Inr ((newClient st)\<lparr>environ := azEnviron (Azure (opts st)) (environ st)\<rparr>)"
    by (simp add: p azEnviron_def newClient_keeps Let_def)
  then show ?thesis
    by (simp add: initAzureDevOpsConnection_def)
qed

lemma initAzureDevOpsConnection_auth_fails:
  assumes "\<forall>k v. SetenvErr w k v = None"
    and "AccessToken (AzureDevops (opts st)) = []"
    and "UseAzAuth w (azEnviron (Azure (opts st)) (environ st)) = Some e"
  shows "\<exists>s. initAzureDevOpsConnection w st = Inl (Fatal (AzAuthFailed e), s) \<and> srv s = srv st"
  unfolding initAzureDevOpsConnection_env [OF assms(1)]
  using assms(2,3)
  by (simp add: selectAuth_def withClient_def newClient_keeps Let_def)

lemma initAzureDevOpsConnection_no_auth:
  assumes "AccessToken (AzureDevops (opts st)) = []" and "\<forall>env. UseAzAuth w env \<noteq> None"
  shows "\<exists>t s. initAzureDevOpsConnection w st = Inl (t, s) \<and> exit_status t \<noteq> 0
           \<and> ((\<forall>k v. SetenvErr w k v = None) \<longrightarrow> (\<exists>e env. UseAzAuth w env = Some e \<and> t = Fatal (AzAuthFailed e)))"
proof (cases "initAzureDevOpsConnection w st" rule: result_cases)
  case (go s')
  from initAzureDevOpsConnection_auth [OF go] assms(1) obtain c where
    c: "AzureDevopsClient s' = Some c" "auth c = AzAuth" by auto
  from go obtain s3 s4 where 4: "selectAuth w s3 = Inr s4"
    and o: "opts (final (Inr s3 :: ('a, 'b) result)) = opts st"
  proof -
    from go obtain s1 s2 s3 s4 where
      1: "populateEnv w ''AZURE_TENANT_ID'' (TenantId (Azure (opts (newClient st)))) (newClient st) = Inr s1"
      and 2: "populateEnv w ''AZURE_CLIENT_ID'' (ClientId (Azure (opts s1))) s1 = Inr s2"
      and 3: "populateEnv w ''AZURE_CLIENT_SECRET'' (ClientSecret (Azure (opts s2))) s2 = Inr s3"
      and 4: "selectAuth w s3 = Inr s4"
      unfolding initAzureDevOpsConnection_def andThen_eq_Inr by auto
    have "opts s1 = opts st"
      using populateEnv_keeps(1)
        [of w "''AZURE_TENANT_ID''" "TenantId (Azure (opts (newClient st)))" "newClient st"]
      unfolding Inr_final [OF 1] by (simp add: newClient_keeps)
    moreover have "opts s2 = opts s1"
      using populateEnv_keeps(1) [of w "''AZURE_CLIENT_ID''" "ClientId (Azure (opts s1))" s1]
      unfolding Inr_final [OF 2] by simp
    moreover have "opts s3 = opts s2"
      using populateEnv_keeps(1) [of w "''AZURE_CLIENT_SECRET''" "ClientSecret (Azure (opts s2))" s2]
      unfolding Inr_final [OF 3] by simp
    ultimately show ?thesis using that 4 by simp
  qed
  from 4 o assms(1) have "UseAzAuth w (environ s3) = None"
    by (auto simp: selectAuth_def withClient_def Let_def split: if_splits option.splits)
  with assms(2) have False by blast
  then show ?thesis ..
next
  case (halt t s)
  have "\<exists>e env. UseAzAuth w env = Some e \<and> t = Fatal (AzAuthFailed e)"
    if "\<forall>k v. SetenvErr w k v = None"
  proof -
    have "\<exists>s3. selectAuth w s3 = Inl (t, s)"
      using halt that unfolding initAzureDevOpsConnection_def andThen_eq_Inl
      by (auto dest: populateEnv_Inl_cause)
    then obtain s3 where "selectAuth w s3 = Inl (t, s)" ..
    from selectAuth_Inl_cause [OF this] show ?thesis by blast
  qed
  with halt initAzureDevOpsConnection_Inl [OF halt] show ?thesis by simp
qed

text \<open>
  Claim C6: the authentication mode is chosen once, in \<^verbatim>\<open>initAzureDevOpsConnection\<close>.
  When \<^verbatim>\<open>initArgparser\<close> has returned and \<^verbatim>\<open>initAzureDevOpsConnection\<close> returns, the
  client exists and its mode is the static token if the token is not empty and the
  service-principal token acquisition otherwise, never neither, and the client is the
  same in the state \<^verbatim>\<open>main\<close> ends or serves in. When the token is empty, no
  \<^verbatim>\<open>Setenv\<close> fails and \<^verbatim>\<open>UseAzAuth\<close> returns an error in the environment the three
  \<^verbatim>\<open>Setenv\<close> calls leave, \<^verbatim>\<open>main\<close> ends with that error as a fatal one and no HTTP
  server exists. When the token is empty and \<^verbatim>\<open>UseAzAuth\<close> fails in every environment,
  \<^verbatim>\<open>main\<close> ends with a non-zero status and no HTTP server exists.
\<close>

theorem C6_one_authentication_mode:
  assumes "initArgparser w (proc0 w) = Inr st"
  shows "(\<forall>st1. initAzureDevOpsConnection w st = Inr st1 \<longrightarrow>
            (\<exists>c. AzureDevopsClient st1 = Some c
               \<and> auth c = (if AccessToken (AzureDevops (opts st)) \<noteq> []
                           then AccessTokenAuth (AccessToken (AzureDevops (opts st)))
                           else AzAuth))
            \<and> AzureDevopsClient (final (main w)) = AzureDevopsClient st1)
       \<and> (\<forall>e. AccessToken (AzureDevops (opts st)) = [] \<and> (\<forall>k v. SetenvErr w k v = None)
              \<and> UseAzAuth w (azEnviron (Azure (opts st)) (environ st)) = Some e \<longrightarrow>
            terminated (main w) = Some (Fatal (AzAuthFailed e)) \<and> srv (final (main w)) = None)
       \<and> (AccessToken (AzureDevops (opts st)) = [] \<and> (\<forall>env. UseAzAuth w env \<noteq> None) \<longrightarrow>
            (\<exists>t. terminated (main w) = Some t \<and> exit_status t \<noteq> 0)
            \<and> srv (final (main w)) = None)"
proof (intro conjI allI impI)
  fix st1
  assume c: "initAzureDevOpsConnection w st = Inr st1"
  show "\<exists>c. AzureDevopsClient st1 = Some c
               \<and> auth c = (if AccessToken (AzureDevops (opts st)) \<noteq> []
                           then AccessTokenAuth (AccessToken (AzureDevops (opts st)))
                           else AzAuth)"
    using initAzureDevOpsConnection_auth [OF c] by blast
  show "AzureDevopsClient (final (main w)) = AzureDevopsClient st1"
    by (rule main_after_connection [OF assms c])
next
  have none: "srv st = None"
    using initArgparser_keeps(6) [of w "proc0 w"] unfolding assms by (simp add: proc0_def)
  {
    fix e
    assume h: "AccessToken (AzureDevops (opts st)) = [] \<and> (\<forall>k v. SetenvErr w k v = None)
              \<and> UseAzAuth w (azEnviron (Azure (opts st)) (environ st)) = Some e"
    with initAzureDevOpsConnection_auth_fails [of w st e] obtain s where
      f: "initAzureDevOpsConnection w st = Inl (Fatal (AzAuthFailed e), s)" and s: "srv s = srv st"
      by blast
    have m: "main w = Inl (Fatal (AzAuthFailed e), s)"
      by (rule main_Inl_connection [OF assms f])
    show "terminated (main w) = Some (Fatal (AzAuthFailed e))" by (simp add: m)
    show "srv (final (main w)) = None" by (simp add: m s none)
  }
  assume h: "AccessToken (AzureDevops (opts st)) = [] \<and> (\<forall>env. UseAzAuth w env \<noteq> None)"
  with initAzureDevOpsConnection_no_auth [of st w] obtain t s where
    f: "initAzureDevOpsConnection w st = Inl (t, s)" and t: "exit_status t \<noteq> 0"
    by blast
  have m: "main w = Inl (t, s)" by (rule main_Inl_connection [OF assms f])
  show "\<exists>t. terminated (main w) = Some t \<and> exit_status t \<noteq> 0"
    using t by (simp add: m)
  have "srv s = srv st"
    using initAzureDevOpsConnection_keeps(6) [of w st] by (simp add: f)
  with none show "srv (final (main w)) = None" by (simp add: m)
qed

lemma startCollector_Inl:
  "startCollector w n p f t st = Inl (x, s) \<Longrightarrow> exit_status x \<noteq> 0"
  by (auto simp: startCollector_def Let_def split: option.splits if_splits)

lemma startAll_Inl:
  "startAll w rows st = Inl (x, s) \<Longrightarrow> exit_status x \<noteq> 0"
proof (induction rows arbitrary: st)
  case Nil
  then show ?case by simp
next
  case (Cons row rows)
  obtain n p f t where row: "row = (n, p, f, t)" by (cases row) auto
  from Cons.prems show ?case
    unfolding row startAll.simps andThen_eq_Inl
    by (auto dest: startCollector_Inl Cons.IH)
qed

lemma initMetricCollector_Inl:
  "initMetricCollector w st = Inl (x, s) \<Longrightarrow> exit_status x \<noteq> 0"
  unfolding initMetricCollector_table by (rule startAll_Inl)

lemma startHttpServer_Inl:
  "startHttpServer w st = Inl (x, s) \<Longrightarrow> exit_status x = 1"
  by (auto simp: startHttpServer_def Let_def split: option.splits)

lemma updateServiceDiscovery_Inl:
  "updateServiceDiscovery w st = Inl (x, s) \<Longrightarrow> DiscoveryUpdate w = Some x"
  by (auto simp: updateServiceDiscovery_def split: option.splits)

text \<open>
  Claim C7: help exits with status 0; any other parse error exits with status 1; when
  the arguments parse and the token file is read, missing credentials or a query filter
  without exactly one \<open>@\<close> end \<^verbatim>\<open>main\<close> with status 1; every way \<^verbatim>\<open>initArgparser\<close> ends
  the process after a successful parse is the way \<^verbatim>\<open>main\<close> ends, with status 1; every
  way \<^verbatim>\<open>initAzureDevOpsConnection\<close> ends the process (the failed token acquisition among
  them) and every way \<^verbatim>\<open>initMetricCollector\<close> ends it (a collector whose \<^verbatim>\<open>Start\<close>
  fails among them) is the way \<^verbatim>\<open>main\<close> ends, with a non-zero status; a listener that
  returns ends \<^verbatim>\<open>main\<close> with status 1. Altogether, if the service discovery (which is
  not part of main.go) ends the process only with a non-zero status, then whenever
  \<^verbatim>\<open>main\<close> ends, its status is 0 when help was asked for and non-zero otherwise.
\<close>

theorem C7_exit_status:
  "(ParseErr w = Some (FlagsError ErrHelp) \<longrightarrow> terminated (main w) = Some (Exit 0))
   \<and> (\<forall>e. ParseErr w = Some e \<and> e \<noteq> FlagsError ErrHelp \<longrightarrow> terminated (main w) = Some (Exit 1))
   \<and> (\<forall>st. ParseErr w = None \<and> loadAccessToken w ((proc0 w)\<lparr>opts := ParsedOpts w\<rparr>) = Inr st
          \<and> (AccessToken (AzureDevops (opts st)) = []
                \<and> (TenantId (Azure (opts st)) = [] \<or> ClientId (Azure (opts st)) = [])
              \<or> (\<exists>q \<in> set (QueriesWithProjects (AzureDevops (opts st))). Count q (CHR ''@'') \<noteq> 1))
        \<longrightarrow> (\<exists>t. terminated (main w) = Some t \<and> exit_status t = 1))
   \<and> (\<forall>t s. ParseErr w = None \<and> initArgparser w (proc0 w) = Inl (t, s)
        \<longrightarrow> main w = Inl (t, s) \<and> exit_status t = 1)
   \<and> (\<forall>s1 t s. initArgparser w (proc0 w) = Inr s1 \<and> initAzureDevOpsConnection w s1 = Inl (t, s)
        \<longrightarrow> main w = Inl (t, s) \<and> exit_status t \<noteq> 0)
   \<and> (\<forall>s1 s2 s3 t s. initArgparser w (proc0 w) = Inr s1 \<and> initAzureDevOpsConnection w s1 = Inr s2
          \<and> updateServiceDiscovery w s2 = Inr s3 \<and> initMetricCollector w s3 = Inl (t, s)
        \<longrightarrow> main w = Inl (t, s) \<and> exit_status t \<noteq> 0)
   \<and> (\<forall>s1 s2 s3 s4 t s. initArgparser w (proc0 w) = Inr s1 \<and> initAzureDevOpsConnection w s1 = Inr s2
          \<and> updateServiceDiscovery w s2 = Inr s3 \<and> initMetricCollector w s3 = Inr s4
          \<and> startHttpServer w s4 = Inl (t, s)
        \<longrightarrow> main w = Inl (t, s) \<and> exit_status t = 1)
   \<and> ((\<forall>h. DiscoveryUpdate w = Some h \<longrightarrow> exit_status h \<noteq> 0) \<longrightarrow>
        (\<forall>t. terminated (main w) = Some t \<longrightarrow>
           (if ParseErr w = Some (FlagsError ErrHelp) then t = Exit 0 else exit_status t \<noteq> 0)))"
proof (intro conjI allI impI)
  assume "ParseErr w = Some (FlagsError ErrHelp)"
  then have "initArgparser w (proc0 w) = Inl (Exit 0, (proc0 w)\<lparr>opts := ParsedOpts w\<rparr>)"
    by (simp add: initArgparser_def parseArguments_def)
  then show "terminated (main w) = Some (Exit 0)"
    by (simp add: main_Inl_argparser)
next
  fix e
  assume "ParseErr w = Some e \<and> e \<noteq> FlagsError ErrHelp"
  then have "\<exists>s. initArgparser w (proc0 w) = Inl (Exit 1, s)"
    by (simp add: initArgparser_def parseArguments_def Let_def)
  then show "terminated (main w) = Some (Exit 1)"
    by (auto simp: main_Inl_argparser)
next
  fix st
  assume h0: "ParseErr w = None \<and> loadAccessToken w ((proc0 w)\<lparr>opts := ParsedOpts w\<rparr>) = Inr st
          \<and> (AccessToken (AzureDevops (opts st)) = []
                \<and> (TenantId (Azure (opts st)) = [] \<or> ClientId (Azure (opts st)) = [])
              \<or> (\<exists>q \<in> set (QueriesWithProjects (AzureDevops (opts st))). Count q (CHR ''@'') \<noteq> 1))"
  then have h: "ParseErr w = None \<and> loadAccessToken w ((proc0 w)\<lparr>opts := ParsedOpts w\<rparr>) = Inr st
          \<and> (checkCredentials st \<noteq> Inr st
              \<or> (\<exists>q \<in> set (QueriesWithProjects (AzureDevops (opts st))). Count q (CHR ''@'') \<noteq> 1))"
    by (auto simp: checkCredentials_def)
  then have l: "initArgparser w (proc0 w) =
         andThen (andThen (checkCredentials st) checkQueries)
           (\<lambda>st. checkDeprecatedEnv (st\<lparr>opts := useDefaultScrapeTime (opts st)\<rparr>))"
    by (simp add: initArgparser_loaded)
  have "\<exists>t s. initArgparser w (proc0 w) = Inl (t, s)"
  proof (cases "checkCredentials st = Inr st")
    case False
    with checkCredentials_cases [of st] show ?thesis by (auto simp: l)
  next
    case True
    with h have "filter (\<lambda>q. Count q (CHR ''@'') \<noteq> 1) (QueriesWithProjects (AzureDevops (opts st))) \<noteq> []"
      by (auto simp: filter_empty_conv)
    with True show ?thesis by (simp add: l checkQueries_eq Let_def)
  qed
  then obtain t s where i: "initArgparser w (proc0 w) = Inl (t, s)" by blast
  with h initArgparser_Inl_status [of w "proc0 w" t s] show "\<exists>t. terminated (main w) = Some t \<and> exit_status t = 1"
    by (simp add: main_Inl_argparser [OF i])
next
  fix t s
  assume h: "ParseErr w = None \<and> initArgparser w (proc0 w) = Inl (t, s)"
  then show "main w = Inl (t, s)" by (simp add: main_Inl_argparser)
  from h show "exit_status t = 1" by (auto dest: initArgparser_Inl_status)
next
  fix s1 t s
  assume h: "initArgparser w (proc0 w) = Inr s1 \<and> initAzureDevOpsConnection w s1 = Inl (t, s)"
  then show "main w = Inl (t, s)" by (simp add: main_Inl_connection)
  from h show "exit_status t \<noteq> 0" by (auto dest: initAzureDevOpsConnection_Inl)
next
  fix s1 s2 s3 t s
  assume h: "initArgparser w (proc0 w) = Inr s1 \<and> initAzureDevOpsConnection w s1 = Inr s2
          \<and> updateServiceDiscovery w s2 = Inr s3 \<and> initMetricCollector w s3 = Inl (t, s)"
  then show "main w = Inl (t, s)" by (simp add: main_def)
  from h show "exit_status t \<noteq> 0" by (auto dest: initMetricCollector_Inl)
next
  fix s1 s2 s3 s4 t s
  assume h: "initArgparser w (proc0 w) = Inr s1 \<and> initAzureDevOpsConnection w s1 = Inr s2
          \<and> updateServiceDiscovery w s2 = Inr s3 \<and> initMetricCollector w s3 = Inr s4
          \<and> startHttpServer w s4 = Inl (t, s)"
  then show "main w = Inl (t, s)" by (simp add: main_def)
  from h show "exit_status t = 1" by (auto dest: startHttpServer_Inl)
next
  fix t
  assume d: "\<forall>h. DiscoveryUpdate w = Some h \<longrightarrow> exit_status h \<noteq> 0"
    and t: "terminated (main w) = Some t"
  from t obtain s where m: "main w = Inl (t, s)"
    by (cases "main w" rule: result_cases) simp_all
  show "if ParseErr w = Some (FlagsError ErrHelp) then t = Exit 0 else exit_status t \<noteq> 0"
  proof (cases "initArgparser w (proc0 w)" rule: result_cases)
    case (halt t' s')
    with m have eq: "t' = t" by (simp add: main_Inl_argparser)
    show ?thesis
    proof (cases "ParseErr w")
      case None
      with halt eq initArgparser_Inl_status [of w "proc0 w" t s'] show ?thesis by simp
    next
      case (Some e)
      from initArgparser_parse_error [OF Some, of "proc0 w"] halt eq Some
      show ?thesis by (auto split: if_splits)
    qed
  next
    case (go s1)
    from initArgparser_Inr [OF go] have p: "ParseErr w = None" by blast
    from m go have "andThen (andThen (andThen (initAzureDevOpsConnection w s1)
        (updateServiceDiscovery w)) (initMetricCollector w)) (startHttpServer w) = Inl (t, s)"
      by (simp add: main_def)
    then have "exit_status t \<noteq> 0"
      unfolding andThen_eq_Inl
      using d
      by (auto dest: initAzureDevOpsConnection_Inl updateServiceDiscovery_Inl
          initMetricCollector_Inl startHttpServer_Inl)
    with p show ?thesis by simp
  qed
qed


lemma main_server:
  assumes "terminated (main w) = None"
  shows "\<exists>s. srv (final (main w)) = Some s \<and> Handler s = mux"
proof -
  from assms obtain s4 where "startHttpServer w s4 = Inr (final (main w))"
    by (rule main_Inr)
  then have "srv (final (main w)) = srv (final (startHttpServer w s4))"
    by simp
  then show ?thesis
    by (simp add: startHttpServer_def Let_def split: option.splits)
qed

lemma health_answer:
  assumes "srv st = Some s" and "Handler s = mux"
    and "Path r = ''/healthz'' \<or> Path r = ''/readyz''"
  shows "ServeHTTP w st connErr r =
     (if Method r = ''HEAD'' then Handled \<lparr>body = [], writeErr = connErr, eatWrites = True\<rparr> []
      else case connErr of
        None \<Rightarrow> Handled \<lparr>body = ''Ok'', writeErr = None, eatWrites = False\<rparr> []
      | Some e \<Rightarrow> Handled \<lparr>body = [], writeErr = Some e, eatWrites = False\<rparr> [e])"
  using assms
  by (auto simp: ServeHTTP_def mux_def healthzHandler_def readyzHandler_def Fprint_def
      newResponse_def split: option.splits)

text \<open>
  Claim C8, amended: while the process serves, a request to \<^verbatim>\<open>/healthz\<close> or
  \<^verbatim>\<open>/readyz\<close> is routed by the mux \<^verbatim>\<open>startHttpServer\<close> has stored in the server to a
  handler that writes "Ok". For every method but \<^verbatim>\<open>HEAD\<close> the response body is
  exactly "Ok" and nothing is logged when the connection accepts the write, and the
  body is empty and the write error is logged when it does not; for \<^verbatim>\<open>HEAD\<close> the
  body is empty and nothing is logged. The answer is the same in every environment and
  every process state with the same server, so it depends on no collector.
\<close>

theorem C8_health_endpoints_answer_Ok:
  assumes "terminated (main w) = None"
    and "Path r = ''/healthz'' \<or> Path r = ''/readyz''"
  shows "(Method r \<noteq> ''HEAD'' \<longrightarrow>
            ServeHTTP w (final (main w)) None r =
              Handled \<lparr>body = ''Ok'', writeErr = None, eatWrites = False\<rparr> []
            \<and> (\<forall>e. ServeHTTP w (final (main w)) (Some e) r =
                  Handled \<lparr>body = [], writeErr = Some e, eatWrites = False\<rparr> [e]))
       \<and> (Method r = ''HEAD'' \<longrightarrow>
            ServeHTTP w (final (main w)) connErr r =
              Handled \<lparr>body = [], writeErr = connErr, eatWrites = True\<rparr> [])
       \<and> (\<forall>w' st'. srv st' = srv (final (main w)) \<longrightarrow>
            ServeHTTP w' st' connErr r = ServeHTTP w (final (main w)) connErr r)"
proof -
  from main_server [OF assms(1)] obtain s where
    s: "srv (final (main w)) = Some s" "Handler s = mux" by blast
  note a = health_answer [OF s assms(2)]
  have "ServeHTTP w' st' connErr r = ServeHTTP w (final (main w)) connErr r"
    if "srv st' = srv (final (main w))" for w' :: "('c, 'd) world" and st'
  proof -
    from that s have "srv st' = Some s" by simp
    from health_answer [OF this s(2) assms(2), of w' connErr] a [of w connErr]
    show ?thesis by simp
  qed
  with a show ?thesis by simp
qed

subsection \<open>Evaluation in the concrete environments\<close>

lemma withOpts_fields [simp]:
  "ParseErr (withOpts cfg) = None"
  "ParsedOpts (withOpts cfg) = cfg"
  "Getenv (withOpts cfg) = (\<lambda>k. [])"
  "SetenvErr (withOpts cfg) = (\<lambda>k v. None)"
  "UseAzAuth (withOpts cfg) = (\<lambda>env. None)"
  "DiscoveryUpdate (withOpts cfg) = None"
  "GetCachePath (withOpts cfg) = (\<lambda>cfg f. f)"
  "BuildCacheTag (withOpts cfg) = Pair"
  "Start (withOpts cfg) = (\<lambda>c. None)"
  "ListenAndServe (withOpts cfg) = None"
  "TrimSpace (withOpts cfg) = asciiTrim"
  by (simp_all add: withOpts_def world0_def)

lemma withOpts_ReadFile:
  "ReadFile (withOpts cfg) f =
     (if f = ''/run/token'' then Inr tokenFileContent else Inl ''no such file or directory'')"
  by (simp add: withOpts_def world0_def)

lemma world0_withOpts: "world0 = withOpts opts0"
  by (simp add: withOpts_def world0_def)

lemma collectorTable_defaulted:
  "\<forall>(n, p, f, t) \<in> set (collectorTable (useDefaultScrapeTime cfg)). t \<noteq> None"
  by (simp add: collectorTable_def useDefaultScrapeTime_Scrape orDefault_def Let_def
      split: option.splits)

lemma no_token_file:
  "AccessTokenFile (AzureDevops (opts st)) = None \<Longrightarrow> loadAccessToken w st = Inr st"
  by (simp add: loadAccessToken_def)

lemma world_serving:
  fixes w :: "('p, 't) world"
  assumes "ParseErr w = None"
    and "loadAccessToken w ((proc0 w)\<lparr>opts := ParsedOpts w\<rparr>) = Inr ((proc0 w)\<lparr>opts := cfg\<rparr>)"
    and "AccessToken (AzureDevops cfg) \<noteq> []
         \<or> (TenantId (Azure cfg) \<noteq> [] \<and> ClientId (Azure cfg) \<noteq> [] \<and> (\<forall>env. UseAzAuth w env = None))"
    and "\<forall>q \<in> set (QueriesWithProjects (AzureDevops cfg)). Count q (CHR ''@'') = 1"
    and "Getenv w ''AZURE_DEVOPS_FILTER_AGENTPOOL'' = []"
    and "\<forall>k v. SetenvErr w k v = None"
    and "DiscoveryUpdate w = None"
    and "\<forall>c. Start w c = None"
    and "ListenAndServe w = None"
  shows "initArgparser w (proc0 w) = Inr ((proc0 w)\<lparr>opts := useDefaultScrapeTime cfg\<rparr>)"
    and "terminated (main w) = None"
    and "collectors (final (main w)) =
           map (\<lambda>(n, p, f, t). collectorOf w (useDefaultScrapeTime cfg) n p f (the t))
             (filter (\<lambda>(n, p, f, t). 0 < the t) (collectorTable (useDefaultScrapeTime cfg)))"
    and "srv (final (main w)) \<noteq> None"
    and "opts (final (main w)) = useDefaultScrapeTime cfg"
    and "stdout (final (main w)) = []"
proof -
  let ?st = "(proc0 w)\<lparr>opts := cfg\<rparr>"
  have cr: "checkCredentials ?st = Inr ?st"
    using assms(3) by (auto simp: checkCredentials_def)
  have a: "initArgparser w (proc0 w) = Inr (?st\<lparr>opts := useDefaultScrapeTime (opts ?st)\<rparr>)"
    using assms(1,2) cr
    by (rule initArgparser_passes) (simp_all add: assms(4) assms(5) proc0_def)
  then show 1: "initArgparser w (proc0 w) = Inr ((proc0 w)\<lparr>opts := useDefaultScrapeTime cfg\<rparr>)"
    by simp
  have au: "AccessToken (AzureDevops (opts ((proc0 w)\<lparr>opts := useDefaultScrapeTime cfg\<rparr>))) \<noteq> []
      \<or> (\<forall>env. UseAzAuth w env = None)"
    using assms(3) by auto
  have tb: "\<forall>(n, p, f, t) \<in> set (collectorTable (opts ((proc0 w)\<lparr>opts := useDefaultScrapeTime cfg\<rparr>))). t \<noteq> None"
    using collectorTable_defaulted [of cfg] by simp
  note m = main_serving [OF 1 assms(6) au assms(7) tb assms(8) assms(9)]
  show "terminated (main w) = None" by (rule m(1))
  show "collectors (final (main w)) =
           map (\<lambda>(n, p, f, t). collectorOf w (useDefaultScrapeTime cfg) n p f (the t))
             (filter (\<lambda>(n, p, f, t). 0 < the t) (collectorTable (useDefaultScrapeTime cfg)))"
    using m(2) by (simp add: proc0_def)
  show "srv (final (main w)) \<noteq> None" by (rule m(3))
  show "opts (final (main w)) = useDefaultScrapeTime cfg"
    using main_after_argparser(1) [OF 1] by simp
  show "stdout (final (main w)) = []"
    using main_after_argparser(2) [OF 1] by (simp add: proc0_def)
qed

lemma withOpts_serving:
  assumes "AccessTokenFile (AzureDevops cfg) = None"
    and "AccessToken (AzureDevops cfg) \<noteq> [] \<or> (TenantId (Azure cfg) \<noteq> [] \<and> ClientId (Azure cfg) \<noteq> [])"
    and "\<forall>q \<in> set (QueriesWithProjects (AzureDevops cfg)). Count q (CHR ''@'') = 1"
  shows "initArgparser (withOpts cfg) (proc0 (withOpts cfg)) =
           Inr ((proc0 (withOpts cfg))\<lparr>opts := useDefaultScrapeTime cfg\<rparr>)"
    and "terminated (main (withOpts cfg)) = None"
    and "collectors (final (main (withOpts cfg))) =
           map (\<lambda>(n, p, f, t). collectorOf (withOpts cfg) (useDefaultScrapeTime cfg) n p f (the t))
             (filter (\<lambda>(n, p, f, t). 0 < the t) (collectorTable (useDefaultScrapeTime cfg)))"
    and "srv (final (main (withOpts cfg))) \<noteq> None"
    and "opts (final (main (withOpts cfg))) = useDefaultScrapeTime cfg"
    and "stdout (final (main (withOpts cfg))) = []"
proof -
  have ld: "loadAccessToken (withOpts cfg) ((proc0 (withOpts cfg))\<lparr>opts := ParsedOpts (withOpts cfg)\<rparr>) =
        Inr ((proc0 (withOpts cfg))\<lparr>opts := cfg\<rparr>)"
    using assms(1) by (simp add: no_token_file)
  have cr: "AccessToken (AzureDevops cfg) \<noteq> []
         \<or> (TenantId (Azure cfg) \<noteq> [] \<and> ClientId (Azure cfg) \<noteq> [] \<and> (\<forall>env. UseAzAuth (withOpts cfg) env = None))"
    using assms(2) by simp
  note s = world_serving [of "withOpts cfg" cfg, OF _ ld cr assms(3)]
  show "initArgparser (withOpts cfg) (proc0 (withOpts cfg)) =
           Inr ((proc0 (withOpts cfg))\<lparr>opts := useDefaultScrapeTime cfg\<rparr>)"
    by (rule s(1)) simp_all
  show "terminated (main (withOpts cfg)) = None"
    by (rule s(2)) simp_all
  show "collectors (final (main (withOpts cfg))) =
           map (\<lambda>(n, p, f, t). collectorOf (withOpts cfg) (useDefaultScrapeTime cfg) n p f (the t))
             (filter (\<lambda>(n, p, f, t). 0 < the t) (collectorTable (useDefaultScrapeTime cfg)))"
    by (rule s(3)) simp_all
  show "srv (final (main (withOpts cfg))) \<noteq> None"
    by (rule s(4)) simp_all
  show "opts (final (main (withOpts cfg))) = useDefaultScrapeTime cfg"
    by (rule s(5)) simp_all
  show "stdout (final (main (withOpts cfg))) = []"
    by (rule s(6)) simp_all
qed

lemma table_opts0:
  "collectorTable (useDefaultScrapeTime opts0) =
     [(''Project'', MetricsCollectorProject, ''project.json'', Some 1800000000000),
      (''AgentPool'', MetricsCollectorAgentPool, ''agentpool.json'', Some 1800000000000),
      (''LatestBuild'', MetricsCollectorLatestBuild, ''latestbuild.json'', Some 1800000000000),
      (''Repository'', MetricsCollectorRepository, ''latestbuild.json'', Some 1800000000000),
      (''PullRequest'', MetricsCollectorPullRequest, ''pullrequest.json'', Some 1800000000000),
      (''Build'', MetricsCollectorBuild, ''build.json'', Some 1800000000000),
      (''Release'', MetricsCollectorRelease, ''release.json'', Some 1800000000000),
      (''Deployment'', MetricsCollectorDeployment, ''deployment.json'', Some 1800000000000),
      (''Stats'', MetricsCollectorStats, ''stats.json'', Some 1800000000000),
      (''ResourceUsage'', MetricsCollectorResourceUsage, ''resourceusage.json'', Some 1800000000000),
      (''Query'', MetricsCollectorQuery, ''query.json'', Some 1800000000000)]"
  by (simp add: collectorTable_def useDefaultScrapeTime_Scrape orDefault_def opts0_def Let_def)

lemma opts0_sel [simp]:
  "AccessTokenFile (AzureDevops opts0) = None"
  "AccessToken (AzureDevops opts0) = ''pat''"
  "QueriesWithProjects (AzureDevops opts0) = []"
  "TenantId (Azure opts0) = []"
  "ClientId (Azure opts0) = []"
  by (simp_all add: opts0_def)

text \<open>
  Claim C1: no two registered collectors share a cache file. In \<open>world0\<close>, where every
  collector is enabled by the default scrape time and starts, the collectors
  \<^verbatim>\<open>LatestBuild\<close> and \<^verbatim>\<open>Repository\<close> are both given \<^verbatim>\<open>latestbuild.json\<close> (line 224
  repeats the file name of line 223), so the cache files of the collectors are not
  distinct, although the function from file name to cache path is injective there.
\<close>

theorem C1_repository_shares_latestbuild_cache:
  "cacheFiles (main world0) =
     [(''Project'', ''project.json''), (''AgentPool'', ''agentpool.json''),
      (''LatestBuild'', ''latestbuild.json''), (''Repository'', ''latestbuild.json''),
      (''PullRequest'', ''pullrequest.json''), (''Build'', ''build.json''),
      (''Release'', ''release.json''), (''Deployment'', ''deployment.json''),
      (''Stats'', ''stats.json''), (''ResourceUsage'', ''resourceusage.json''),
      (''Query'', ''query.json'')]
   \<and> \<not> distinct (map snd (cacheFiles (main world0)))"
proof -
  have "cacheFiles (main (withOpts opts0)) =
     [(''Project'', ''project.json''), (''AgentPool'', ''agentpool.json''),
      (''LatestBuild'', ''latestbuild.json''), (''Repository'', ''latestbuild.json''),
      (''PullRequest'', ''pullrequest.json''), (''Build'', ''build.json''),
      (''Release'', ''release.json''), (''Deployment'', ''deployment.json''),
      (''Stats'', ''stats.json''), (''ResourceUsage'', ''resourceusage.json''),
      (''Query'', ''query.json'')]"
    unfolding cacheFiles_def
    by (subst withOpts_serving(3)) (simp_all add: table_opts0 collectorOf_def)
  then show ?thesis
    by (simp add: world0_withOpts)
qed


lemma optsNoSecret_sel [simp]:
  "AccessTokenFile (AzureDevops optsNoSecret) = None"
  "AccessToken (AzureDevops optsNoSecret) = []"
  "QueriesWithProjects (AzureDevops optsNoSecret) = []"
  "TenantId (Azure optsNoSecret) = ''tenant''"
  "ClientId (Azure optsNoSecret) = ''client''"
  "ClientSecret (Azure optsNoSecret) = []"
  by (simp_all add: optsNoSecret_def opts0_def)

lemma optsNoCredentials_sel [simp]:
  "AccessTokenFile (AzureDevops optsNoCredentials) = None"
  "AccessToken (AzureDevops optsNoCredentials) = []"
  "QueriesWithProjects (AzureDevops optsNoCredentials) = []"
  "TenantId (Azure optsNoCredentials) = []"
  "ClientId (Azure optsNoCredentials) = []"
  by (simp_all add: optsNoCredentials_def opts0_def)

lemma optsQueries_sel [simp]:
  "AccessTokenFile (AzureDevops (optsQueries qs cfg)) = AccessTokenFile (AzureDevops cfg)"
  "AccessToken (AzureDevops (optsQueries qs cfg)) = AccessToken (AzureDevops cfg)"
  "QueriesWithProjects (AzureDevops (optsQueries qs cfg)) = qs"
  "Azure (optsQueries qs cfg) = Azure cfg"
  by (simp_all add: optsQueries_def)

text \<open>
  Claim C2 as stated fails: with no token and no token file, tenant id and client id
  given and the client secret empty, the service-principal credentials are not fully
  supplied, yet startup passes the credential check and reaches the HTTP server.
\<close>

theorem C2_counterexample:
  "AccessToken (AzureDevops (ParsedOpts (withOpts optsNoSecret))) = []
   \<and> AccessTokenFile (AzureDevops (ParsedOpts (withOpts optsNoSecret))) = None
   \<and> ClientSecret (Azure (ParsedOpts (withOpts optsNoSecret))) = []
   \<and> terminated (main (withOpts optsNoSecret)) = None
   \<and> srv (final (main (withOpts optsNoSecret))) \<noteq> None"
  using withOpts_serving(2,4) [of optsNoSecret] by simp

text \<open>
  The credential check on two configurations: no credentials at all, and tenant id with
  client id but no secret.
\<close>

theorem C2_credential_check_witness:
  "main (withOpts optsNoCredentials) =
     Inl (Fatal NoCredentials, (proc0 (withOpts optsNoCredentials))\<lparr>opts := optsNoCredentials\<rparr>)
   \<and> checkCredentials ((proc0 (withOpts optsNoSecret))\<lparr>opts := optsNoSecret\<rparr>) =
       Inr ((proc0 (withOpts optsNoSecret))\<lparr>opts := optsNoSecret\<rparr>)
   \<and> terminated (initArgparser (withOpts optsNoSecret) (proc0 (withOpts optsNoSecret))) \<noteq>
       Some (Fatal NoCredentials)"
proof -
  have a: "loadAccessToken (withOpts optsNoCredentials)
        ((proc0 (withOpts optsNoCredentials))\<lparr>opts := ParsedOpts (withOpts optsNoCredentials)\<rparr>) =
      Inr ((proc0 (withOpts optsNoCredentials))\<lparr>opts := optsNoCredentials\<rparr>)"
    by (simp add: no_token_file)
  have b: "loadAccessToken (withOpts optsNoSecret)
        ((proc0 (withOpts optsNoSecret))\<lparr>opts := ParsedOpts (withOpts optsNoSecret)\<rparr>) =
      Inr ((proc0 (withOpts optsNoSecret))\<lparr>opts := optsNoSecret\<rparr>)"
    by (simp add: no_token_file)
  show ?thesis
    using C2_credential_check [OF _ a] C2_credential_check [OF _ b] by simp
qed

lemma not_uuid_form:
  "\<not> spec_query_form ''a@b''" "\<not> spec_query_form ''nouuid''"
  by (simp_all add: spec_query_form_def spec_uuid_def)

text \<open>
  Claim C4 as stated fails twice. The filter \<^verbatim>\<open>a@b\<close> is not of the form
  "<uuid>@<uuid>", yet startup prints nothing and reaches the HTTP server: only the
  number of \<open>@\<close> is checked. And with no credentials the filter \<^verbatim>\<open>nouuid\<close> is never
  looked at: startup ends with the credential error and prints no validation message.
\<close>

theorem C4_counterexample:
  "\<not> spec_query_form ''a@b''
   \<and> QueriesWithProjects (AzureDevops (ParsedOpts (withOpts (optsQueries [''a@b''] opts0)))) = [''a@b'']
   \<and> terminated (main (withOpts (optsQueries [''a@b''] opts0))) = None
   \<and> stdout (final (main (withOpts (optsQueries [''a@b''] opts0)))) = []
   \<and> \<not> spec_query_form ''nouuid''
   \<and> QueriesWithProjects (AzureDevops (ParsedOpts (withOpts (optsQueries [''nouuid''] optsNoCredentials)))) = [''nouuid'']
   \<and> terminated (main (withOpts (optsQueries [''nouuid''] optsNoCredentials))) = Some (Fatal NoCredentials)
   \<and> stdout (final (main (withOpts (optsQueries [''nouuid''] optsNoCredentials)))) = []"
proof -
  have 1: "terminated (main (withOpts (optsQueries [''a@b''] opts0))) = None"
    by (rule withOpts_serving(2)) (simp_all add: Count_def)
  have 2: "stdout (final (main (withOpts (optsQueries [''a@b''] opts0)))) = []"
    by (rule withOpts_serving(6)) (simp_all add: Count_def)
  let ?w = "withOpts (optsQueries [''nouuid''] optsNoCredentials)"
  have ld: "loadAccessToken ?w ((proc0 ?w)\<lparr>opts := ParsedOpts ?w\<rparr>) =
      Inr ((proc0 ?w)\<lparr>opts := optsQueries [''nouuid''] optsNoCredentials\<rparr>)"
    by (simp add: no_token_file)
  have "initArgparser ?w (proc0 ?w) =
      Inl (Fatal NoCredentials, (proc0 ?w)\<lparr>opts := optsQueries [''nouuid''] optsNoCredentials\<rparr>)"
    by (simp add: initArgparser_loaded [OF _ ld] checkCredentials_def)
  then have "main ?w =
      Inl (Fatal NoCredentials, (proc0 ?w)\<lparr>opts := optsQueries [''nouuid''] optsNoCredentials\<rparr>)"
    by (rule main_Inl_argparser)
  then have 3: "terminated (main ?w) = Some (Fatal NoCredentials)"
    and 4: "stdout (final (main ?w)) = []"
    by (simp_all add: proc0_def)
  from 1 2 3 4 show ?thesis
    by (simp add: not_uuid_form)
qed

text \<open>
  The filters \<^verbatim>\<open>a@b\<close> and \<^verbatim>\<open>nouuid\<close> together end startup with status 1 and the
  message for \<^verbatim>\<open>nouuid\<close>; \<^verbatim>\<open>a@b\<close> alone passes the check.
\<close>

theorem C4_query_without_single_at_witness:
  "terminated (main (withOpts (optsQueries [''a@b'', ''nouuid''] opts0))) = Some (Exit 1)
   \<and> malformedLine ''nouuid'' \<in> set (stdout (final (main (withOpts (optsQueries [''a@b'', ''nouuid''] opts0)))))
   \<and> AzureDevopsClient (final (main (withOpts (optsQueries [''a@b'', ''nouuid''] opts0)))) = None
   \<and> srv (final (main (withOpts (optsQueries [''a@b'', ''nouuid''] opts0)))) = None
   \<and> checkQueries ((proc0 (withOpts (optsQueries [''a@b''] opts0)))\<lparr>opts := optsQueries [''a@b''] opts0\<rparr>) =
       Inr ((proc0 (withOpts (optsQueries [''a@b''] opts0)))\<lparr>opts := optsQueries [''a@b''] opts0\<rparr>)"
proof -
  let ?w = "withOpts (optsQueries [''a@b'', ''nouuid''] opts0)"
  let ?st = "(proc0 ?w)\<lparr>opts := optsQueries [''a@b'', ''nouuid''] opts0\<rparr>"
  have ld: "loadAccessToken ?w ((proc0 ?w)\<lparr>opts := ParsedOpts ?w\<rparr>) = Inr ?st"
    by (simp add: no_token_file)
  have cr: "checkCredentials ?st = Inr ?st"
    by (simp add: checkCredentials_def)
  let ?v = "withOpts (optsQueries [''a@b''] opts0)"
  let ?su = "(proc0 ?v)\<lparr>opts := optsQueries [''a@b''] opts0\<rparr>"
  have ld': "loadAccessToken ?v ((proc0 ?v)\<lparr>opts := ParsedOpts ?v\<rparr>) = Inr ?su"
    by (simp add: no_token_file)
  have cr': "checkCredentials ?su = Inr ?su"
    by (simp add: checkCredentials_def)
  show ?thesis
    using C4_query_without_single_at [OF _ ld cr] C4_query_without_single_at [OF _ ld' cr']
    by (simp add: Count_def)
qed


lemma table_optsBuildOff:
  "collectorTable (useDefaultScrapeTime optsBuildOff) =
     [(''Project'', MetricsCollectorProject, ''project.json'', Some 1800000000000),
      (''AgentPool'', MetricsCollectorAgentPool, ''agentpool.json'', Some 1800000000000),
      (''LatestBuild'', MetricsCollectorLatestBuild, ''latestbuild.json'', Some 0),
      (''Repository'', MetricsCollectorRepository, ''latestbuild.json'', Some 1800000000000),
      (''PullRequest'', MetricsCollectorPullRequest, ''pullrequest.json'', Some 1800000000000),
      (''Build'', MetricsCollectorBuild, ''build.json'', Some 0),
      (''Release'', MetricsCollectorRelease, ''release.json'', Some 60000000000),
      (''Deployment'', MetricsCollectorDeployment, ''deployment.json'', Some 1800000000000),
      (''Stats'', MetricsCollectorStats, ''stats.json'', Some 1800000000000),
      (''ResourceUsage'', MetricsCollectorResourceUsage, ''resourceusage.json'', Some 1800000000000),
      (''Query'', MetricsCollectorQuery, ''query.json'', Some 1800000000000)]"
  by (simp add: collectorTable_def useDefaultScrapeTime_Scrape orDefault_def optsBuildOff_def
      opts0_def Let_def)

lemma optsBuildOff_sel [simp]:
  "AccessTokenFile (AzureDevops optsBuildOff) = None"
  "AccessToken (AzureDevops optsBuildOff) = ''pat''"
  "QueriesWithProjects (AzureDevops optsBuildOff) = []"
  by (simp_all add: optsBuildOff_def opts0_def)

text \<open>
  Build interval 0 and release interval one minute: the build collector is not
  registered, the release collector is, with its interval and \<^verbatim>\<open>release.json\<close>.
\<close>

theorem C3_interval_decides_registration_witness:
  "startCollector (withOpts optsBuildOff) ''Build'' MetricsCollectorBuild ''build.json'' (Some 0)
        ((proc0 (withOpts optsBuildOff))\<lparr>opts := useDefaultScrapeTime optsBuildOff\<rparr>) =
       Inr ((proc0 (withOpts optsBuildOff))\<lparr>opts := useDefaultScrapeTime optsBuildOff,
              disabledLog := [''Build'']\<rparr>)
   \<and> collectors (final (startCollector (withOpts optsBuildOff) ''Release'' MetricsCollectorRelease
        ''release.json'' (Some 60000000000)
        ((proc0 (withOpts optsBuildOff))\<lparr>opts := useDefaultScrapeTime optsBuildOff\<rparr>))) =
       [\<lparr>Name = ''Release'', Processor = MetricsCollectorRelease, ScrapeTime = 60000000000,
         CachePath = ''release.json'', CacheTag = (''v1'', AzureDevops optsBuildOff)\<rparr>]
   \<and> ''Build'' \<notin> set (map Name (collectors (final (initMetricCollector (withOpts optsBuildOff)
        ((proc0 (withOpts optsBuildOff))\<lparr>opts := useDefaultScrapeTime optsBuildOff\<rparr>)))))
   \<and> \<lparr>Name = ''Release'', Processor = MetricsCollectorRelease, ScrapeTime = 60000000000,
       CachePath = ''release.json'', CacheTag = (''v1'', AzureDevops optsBuildOff)\<rparr>
      \<in> set (collectors (final (initMetricCollector (withOpts optsBuildOff)
            ((proc0 (withOpts optsBuildOff))\<lparr>opts := useDefaultScrapeTime optsBuildOff\<rparr>))))"
proof -
  let ?w = "withOpts optsBuildOff"
  let ?st = "(proc0 ?w)\<lparr>opts := useDefaultScrapeTime optsBuildOff\<rparr>"
  have "terminated (initMetricCollector ?w ?st) = None"
    unfolding initMetricCollector_table
    by (rule startAll_passes) (simp_all add: table_optsBuildOff)
  then have run: "initMetricCollector ?w ?st = Inr (final (initMetricCollector ?w ?st))"
    by (rule not_terminated)
  have off: "(''Build'', MetricsCollectorBuild, ''build.json'', Some 0) \<in> set (collectorTable (opts ?st))"
    by (simp add: table_optsBuildOff)
  have on: "(''Release'', MetricsCollectorRelease, ''release.json'', Some 60000000000)
      \<in> set (collectorTable (opts ?st))"
    by (simp add: table_optsBuildOff)
  let ?f = "final (initMetricCollector ?w ?st)"
  note b = C3_interval_decides_registration
      [of 0 ?w "''Build''" MetricsCollectorBuild "''build.json''" ?st]
  note r = C3_interval_decides_registration
      [of 60000000000 ?w "''Release''" MetricsCollectorRelease "''release.json''" ?st]
  from b have 1: "startCollector ?w ''Build'' MetricsCollectorBuild ''build.json'' (Some 0) ?st =
      Inr (?st\<lparr>disabledLog := disabledLog ?st @ [''Build'']\<rparr>)"
    by simp
  from r have 2: "collectors (final (startCollector ?w ''Release'' MetricsCollectorRelease
        ''release.json'' (Some 60000000000) ?st)) =
      collectors ?st @ [\<lparr>Name = ''Release'', Processor = MetricsCollectorRelease,
        ScrapeTime = 60000000000, CachePath = GetCachePath ?w (opts ?st) ''release.json'',
        CacheTag = BuildCacheTag ?w cacheTag (AzureDevops (opts ?st))\<rparr>]"
    by simp
  from b have "initMetricCollector ?w ?st = Inr ?f
      \<and> (''Build'', MetricsCollectorBuild, ''build.json'', Some 0) \<in> set (collectorTable (opts ?st))
      \<longrightarrow> (\<forall>c \<in> set (collectors ?f). Name c = ''Build'' \<longrightarrow> c \<in> set (collectors ?st))"
    by blast
  with run off have "\<forall>c \<in> set (collectors ?f). Name c = ''Build'' \<longrightarrow> c \<in> set (collectors ?st)"
    by blast
  then have 3: "''Build'' \<notin> set (map Name (collectors ?f))"
    by (auto simp: proc0_def)
  from r have "initMetricCollector ?w ?st = Inr ?f
      \<and> (''Release'', MetricsCollectorRelease, ''release.json'', Some 60000000000)
          \<in> set (collectorTable (opts ?st))
      \<longrightarrow> \<lparr>Name = ''Release'', Processor = MetricsCollectorRelease,
        ScrapeTime = 60000000000, CachePath = GetCachePath ?w (opts ?st) ''release.json'',
        CacheTag = BuildCacheTag ?w cacheTag (AzureDevops (opts ?st))\<rparr> \<in> set (collectors ?f)"
    by simp
  with run on have 4: "\<lparr>Name = ''Release'', Processor = MetricsCollectorRelease,
        ScrapeTime = 60000000000, CachePath = GetCachePath ?w (opts ?st) ''release.json'',
        CacheTag = BuildCacheTag ?w cacheTag (AzureDevops (opts ?st))\<rparr> \<in> set (collectors ?f)"
    by blast
  from 1 2 3 4 show ?thesis
    by (simp add: proc0_def cacheTag_def)
qed

lemma optsOtherLimit_sel [simp]:
  "AccessTokenFile (AzureDevops optsOtherLimit) = None"
  "AccessToken (AzureDevops optsOtherLimit) = ''pat''"
  "QueriesWithProjects (AzureDevops optsOtherLimit) = []"
  "AzureDevops optsOtherLimit = AzureDevops opts0"
  "Scrape optsOtherLimit = Scrape opts0"
  by (simp_all add: optsOtherLimit_def opts0_def)

lemma optsOtherOrg_sel [simp]:
  "AccessTokenFile (AzureDevops optsOtherOrg) = None"
  "AccessToken (AzureDevops optsOtherOrg) = ''pat''"
  "QueriesWithProjects (AzureDevops optsOtherOrg) = []"
  "AzureDevops optsOtherOrg \<noteq> AzureDevops opts0"
  "Scrape optsOtherOrg = Scrape opts0"
  by (simp_all add: optsOtherOrg_def opts0_def)

lemma collectorTable_Scrape:
  "Scrape cfg = Scrape cfg' \<Longrightarrow>
   collectorTable (useDefaultScrapeTime cfg) = collectorTable (useDefaultScrapeTime cfg')"
  by (simp add: collectorTable_def useDefaultScrapeTime_Scrape)

lemma withOpts_tags:
  assumes "AccessTokenFile (AzureDevops cfg) = None" and "AccessToken (AzureDevops cfg) \<noteq> []"
    and "QueriesWithProjects (AzureDevops cfg) = []" and "Scrape cfg = Scrape opts0"
  shows "map CacheTag (collectors (final (main (withOpts cfg)))) = replicate 11 (''v1'', AzureDevops cfg)"
    and "map_option LimitProject (AzureDevopsClient (final (main (withOpts cfg)))) = Some (Project (Limit cfg))"
proof -
  show "map CacheTag (collectors (final (main (withOpts cfg)))) = replicate 11 (''v1'', AzureDevops cfg)"
    using assms
    by (subst withOpts_serving(3))
      (simp_all add: collectorTable_Scrape [OF assms(4)] table_opts0 collectorOf_def cacheTag_def
        numeral_eq_Suc)
  have a: "initArgparser (withOpts cfg) (proc0 (withOpts cfg)) =
           Inr ((proc0 (withOpts cfg))\<lparr>opts := useDefaultScrapeTime cfg\<rparr>)"
    using assms by (intro withOpts_serving(1)) simp_all
  have "terminated (initAzureDevOpsConnection (withOpts cfg)
          ((proc0 (withOpts cfg))\<lparr>opts := useDefaultScrapeTime cfg\<rparr>)) = None"
    using assms(2) by (intro initAzureDevOpsConnection_passes) simp_all
  then obtain s2 where c: "initAzureDevOpsConnection (withOpts cfg)
          ((proc0 (withOpts cfg))\<lparr>opts := useDefaultScrapeTime cfg\<rparr>) = Inr s2"
    using not_terminated by blast
  from initAzureDevOpsConnection_auth [OF c] main_after_connection [OF a c]
  show "map_option LimitProject (AzureDevopsClient (final (main (withOpts cfg)))) = Some (Project (Limit cfg))"
    by auto
qed

text \<open>
  Claim C5 as stated fails: two configurations that differ in the project limit only,
  5 and 100, configure the API client with different limits but give every collector
  the same cache tag, although \<^verbatim>\<open>BuildCacheTag\<close> is injective in this environment.
\<close>

theorem C5_counterexample:
  "Project (Limit (ParsedOpts (withOpts optsOtherLimit))) = 5
   \<and> Project (Limit (ParsedOpts world0)) = 100
   \<and> map_option LimitProject (AzureDevopsClient (final (main (withOpts optsOtherLimit)))) = Some 5
   \<and> map_option LimitProject (AzureDevopsClient (final (main world0))) = Some 100
   \<and> map CacheTag (collectors (final (main (withOpts optsOtherLimit)))) =
       map CacheTag (collectors (final (main world0)))
   \<and> length (collectors (final (main world0))) = 11"
proof -
  have a: "map CacheTag (collectors (final (main (withOpts optsOtherLimit)))) = replicate 11 (''v1'', AzureDevops opts0)"
    using withOpts_tags(1) [of optsOtherLimit] by simp
  have b: "map CacheTag (collectors (final (main (withOpts opts0)))) = replicate 11 (''v1'', AzureDevops opts0)"
    using withOpts_tags(1) [of opts0] by simp
  have c: "map_option LimitProject (AzureDevopsClient (final (main (withOpts optsOtherLimit)))) = Some 5"
    using withOpts_tags(2) [of optsOtherLimit] by (simp add: optsOtherLimit_def)
  have d: "map_option LimitProject (AzureDevopsClient (final (main (withOpts opts0)))) = Some 100"
    using withOpts_tags(2) [of opts0] by (simp add: opts0_def)
  have e: "length (collectors (final (main (withOpts opts0)))) = 11"
    using arg_cong [OF b, of length] by simp
  have l: "Project (Limit optsOtherLimit) = 5" "Project (Limit opts0) = 100"
    by (simp_all add: optsOtherLimit_def opts0_def)
  from a b c d e l show ?thesis
    by (simp add: world0_withOpts)
qed


lemma hd_collectors_withOpts:
  assumes "AccessTokenFile (AzureDevops cfg) = None" and "AccessToken (AzureDevops cfg) \<noteq> []"
    and "QueriesWithProjects (AzureDevops cfg) = []" and "Scrape cfg = Scrape opts0"
  shows "hd (collectors (final (main (withOpts cfg)))) \<in> set (collectors (final (main (withOpts cfg))))"
proof -
  have "length (map CacheTag (collectors (final (main (withOpts cfg))))) = 11"
    unfolding withOpts_tags(1) [OF assms] by simp
  then have "collectors (final (main (withOpts cfg))) \<noteq> []" by auto
  then show ?thesis by simp
qed

text \<open>
  The first collector's tag in three runs: the base configuration, one with another
  project limit (same tag) and one with another organisation (another tag).
\<close>

theorem C5_cache_tag_of_AzureDevops_options_witness:
  "CacheTag (hd (collectors (final (main world0)))) = (''v1'', AzureDevops opts0)
   \<and> CacheTag (hd (collectors (final (main (withOpts optsOtherLimit))))) =
       CacheTag (hd (collectors (final (main world0))))
   \<and> CacheTag (hd (collectors (final (main (withOpts optsOtherOrg))))) \<noteq>
       CacheTag (hd (collectors (final (main world0))))"
proof -
  let ?c = "hd (collectors (final (main (withOpts opts0))))"
  let ?l = "hd (collectors (final (main (withOpts optsOtherLimit))))"
  let ?g = "hd (collectors (final (main (withOpts optsOtherOrg))))"
  have c: "?c \<in> set (collectors (final (main (withOpts opts0))))"
    by (rule hd_collectors_withOpts) simp_all
  have l: "?l \<in> set (collectors (final (main (withOpts optsOtherLimit))))"
    by (rule hd_collectors_withOpts) simp_all
  have g: "?g \<in> set (collectors (final (main (withOpts optsOtherOrg))))"
    by (rule hd_collectors_withOpts) simp_all
  have o: "opts (final (main (withOpts opts0))) = useDefaultScrapeTime opts0"
    "opts (final (main (withOpts optsOtherLimit))) = useDefaultScrapeTime optsOtherLimit"
    "opts (final (main (withOpts optsOtherOrg))) = useDefaultScrapeTime optsOtherOrg"
    by (rule withOpts_serving(5); simp)+
  have i: "inj (BuildCacheTag (withOpts opts0) cacheTag)"
    by (simp add: inj_def)
  note t = C5_cache_tag_of_AzureDevops_options [of "withOpts opts0"]
  from t c have 1: "CacheTag ?c = (''v1'', AzureDevops opts0)"
    by (auto simp: o cacheTag_def)
  from t have "BuildCacheTag (withOpts optsOtherLimit) = BuildCacheTag (withOpts opts0)
          \<and> ?c \<in> set (collectors (final (main (withOpts opts0))))
          \<and> ?l \<in> set (collectors (final (main (withOpts optsOtherLimit))))
        \<longrightarrow> (AzureDevops (opts (final (main (withOpts optsOtherLimit)))) = AzureDevops (opts (final (main (withOpts opts0))))
               \<longrightarrow> CacheTag ?l = CacheTag ?c)"
    by blast
  with c l have 2: "CacheTag ?l = CacheTag ?c"
    by (simp add: o)
  from t have "BuildCacheTag (withOpts optsOtherOrg) = BuildCacheTag (withOpts opts0)
          \<and> ?c \<in> set (collectors (final (main (withOpts opts0))))
          \<and> ?g \<in> set (collectors (final (main (withOpts optsOtherOrg))))
        \<longrightarrow> (inj (BuildCacheTag (withOpts opts0) cacheTag)
                \<and> AzureDevops (opts (final (main (withOpts optsOtherOrg)))) \<noteq> AzureDevops (opts (final (main (withOpts opts0))))
               \<longrightarrow> CacheTag ?g \<noteq> CacheTag ?c)"
    by blast
  with c g i have 3: "CacheTag ?g \<noteq> CacheTag ?c"
    by (simp add: o)
  from 1 2 3 show ?thesis
    by (simp add: world0_withOpts)
qed

lemma worldAzDenied_fields [simp]:
  "ParseErr worldAzDenied = None"
  "ParsedOpts worldAzDenied = optsNoSecret"
  "Getenv worldAzDenied = (\<lambda>k. [])"
  "SetenvErr worldAzDenied = (\<lambda>k v. None)"
  "UseAzAuth worldAzDenied = (\<lambda>env. Some ''no credential available'')"
  by (simp_all add: worldAzDenied_def withOpts_def world0_def)

lemma worldAzDenied_argparser:
  "initArgparser worldAzDenied (proc0 worldAzDenied) =
     Inr ((proc0 worldAzDenied)\<lparr>opts := useDefaultScrapeTime optsNoSecret\<rparr>)"
proof -
  let ?st = "(proc0 worldAzDenied)\<lparr>opts := optsNoSecret\<rparr>"
  have ld: "loadAccessToken worldAzDenied ((proc0 worldAzDenied)\<lparr>opts := ParsedOpts worldAzDenied\<rparr>) = Inr ?st"
    by (simp add: no_token_file)
  have cr: "checkCredentials ?st = Inr ?st"
    by (simp add: checkCredentials_def)
  have "initArgparser worldAzDenied (proc0 worldAzDenied) = Inr (?st\<lparr>opts := useDefaultScrapeTime (opts ?st)\<rparr>)"
    by (rule initArgparser_passes [OF _ ld cr]) (simp_all add: proc0_def)
  then show ?thesis by simp
qed

text \<open>
  A token on the command line selects the static token; tenant id and client id without
  a token select the token acquisition; when that cannot be set up, startup is fatal.
\<close>

theorem C6_one_authentication_mode_witness:
  "map_option auth (AzureDevopsClient (final (main world0))) = Some (AccessTokenAuth ''pat'')
   \<and> map_option auth (AzureDevopsClient (final (main (withOpts optsNoSecret)))) = Some AzAuth
   \<and> terminated (main worldAzDenied) = Some (Fatal (AzAuthFailed ''no credential available''))
   \<and> srv (final (main worldAzDenied)) = None"
proof -
  have tok: "map_option auth (AzureDevopsClient (final (main (withOpts cfg)))) =
      Some (if AccessToken (AzureDevops cfg) \<noteq> [] then AccessTokenAuth (AccessToken (AzureDevops cfg)) else AzAuth)"
    if f: "AccessTokenFile (AzureDevops cfg) = None"
      and cr: "AccessToken (AzureDevops cfg) \<noteq> [] \<or> (TenantId (Azure cfg) \<noteq> [] \<and> ClientId (Azure cfg) \<noteq> [])"
      and q: "\<forall>q \<in> set (QueriesWithProjects (AzureDevops cfg)). Count q (CHR ''@'') = 1"
    for cfg
  proof -
    let ?w = "withOpts cfg"
    let ?st = "(proc0 ?w)\<lparr>opts := useDefaultScrapeTime cfg\<rparr>"
    have a: "initArgparser ?w (proc0 ?w) = Inr ?st"
      by (rule withOpts_serving(1) [OF f cr q])
    have "terminated (initAzureDevOpsConnection ?w ?st) = None"
      by (rule initAzureDevOpsConnection_passes) simp_all
    then have c: "initAzureDevOpsConnection ?w ?st = Inr (final (initAzureDevOpsConnection ?w ?st))"
      by (rule not_terminated)
    from C6_one_authentication_mode [OF a] c show ?thesis
      by auto
  qed
  have 1: "map_option auth (AzureDevopsClient (final (main (withOpts opts0)))) = Some (AccessTokenAuth ''pat'')"
    using tok [of opts0] by simp
  have 2: "map_option auth (AzureDevopsClient (final (main (withOpts optsNoSecret)))) = Some AzAuth"
    using tok [of optsNoSecret] by simp
  have 3: "terminated (main worldAzDenied) = Some (Fatal (AzAuthFailed ''no credential available''))
      \<and> srv (final (main worldAzDenied)) = None"
    using C6_one_authentication_mode [OF worldAzDenied_argparser] by simp
  from 1 2 3 show ?thesis
    by (simp add: world0_withOpts)
qed

lemma worldHelp_fields [simp]:
  "ParseErr worldHelp = Some (FlagsError ErrHelp)"
  "ParseErr worldBadFlag = Some (FlagsError ErrOtherType)"
  by (simp_all add: worldHelp_def worldBadFlag_def world0_def)

lemma main_reaches_server:
  assumes "initArgparser w (proc0 w) = Inr s1"
    and "\<forall>k v. SetenvErr w k v = None"
    and "AccessToken (AzureDevops (opts s1)) \<noteq> [] \<or> (\<forall>env. UseAzAuth w env = None)"
    and "DiscoveryUpdate w = None"
    and "\<forall>(n, p, f, t) \<in> set (collectorTable (opts s1)). t \<noteq> None"
    and "\<forall>c. Start w c = None"
  shows "\<exists>s4. main w = startHttpServer w s4"
proof -
  from initAzureDevOpsConnection_passes [OF assms(2,3)]
  obtain s2 where 2: "initAzureDevOpsConnection w s1 = Inr s2"
    using not_terminated by blast
  have k2: "opts s2 = opts s1"
    using initAzureDevOpsConnection_keeps(1) [of w s1] 2 by simp
  define s3 where "s3 = s2\<lparr>ServiceDiscovery := True\<rparr>"
  have 3: "updateServiceDiscovery w s2 = Inr s3"
    by (simp add: updateServiceDiscovery_def assms(4) s3_def)
  have k3: "opts s3 = opts s1"
    by (simp add: s3_def k2)
  from startAll_passes [of "collectorTable (opts s3)" w s3] assms(5,6)
  obtain s4 where 4: "startAll w (collectorTable (opts s3)) s3 = Inr s4"
    using not_terminated k3 by metis
  have "main w = startHttpServer w s4"
    by (simp add: main_def assms(1) 2 3 initMetricCollector_table 4)
  then show ?thesis ..
qed

lemma main_server_stops:
  assumes "initArgparser w (proc0 w) = Inr s1"
    and "\<forall>k v. SetenvErr w k v = None"
    and "AccessToken (AzureDevops (opts s1)) \<noteq> [] \<or> (\<forall>env. UseAzAuth w env = None)"
    and "DiscoveryUpdate w = None"
    and "\<forall>(n, p, f, t) \<in> set (collectorTable (opts s1)). t \<noteq> None"
    and "\<forall>c. Start w c = None"
    and "ListenAndServe w = Some e"
  shows "terminated (main w) = Some (Fatal (ServerStopped e))"
proof -
  from main_reaches_server [OF assms(1-6)] obtain s4 where "main w = startHttpServer w s4" ..
  then show ?thesis
    by (simp add: startHttpServer_def assms(7) Let_def)
qed

lemma main_start_fails:
  assumes "initArgparser w (proc0 w) = Inr s1"
    and "\<forall>k v. SetenvErr w k v = None"
    and "AccessToken (AzureDevops (opts s1)) \<noteq> [] \<or> (\<forall>env. UseAzAuth w env = None)"
    and "DiscoveryUpdate w = None"
    and "TimeProjects (Scrape (opts s1)) = Some d" and "0 < d"
    and "\<forall>c. Start w c = Some e"
  shows "terminated (main w) = Some (Fatal (CollectorStartFailed e))"
proof -
  from initAzureDevOpsConnection_passes [OF assms(2,3)]
  obtain s2 where 2: "initAzureDevOpsConnection w s1 = Inr s2"
    using not_terminated by blast
  have k2: "opts s2 = opts s1"
    using initAzureDevOpsConnection_keeps(1) [of w s1] 2 by simp
  define s3 where "s3 = s2\<lparr>ServiceDiscovery := True\<rparr>"
  have 3: "updateServiceDiscovery w s2 = Inr s3"
    by (simp add: updateServiceDiscovery_def assms(4) s3_def)
  have k3: "opts s3 = opts s1"
    by (simp add: s3_def k2)
  have "\<exists>s. startCollector w ''Project'' MetricsCollectorProject ''project.json''
      (TimeProjects (Scrape (opts s3))) s3 = Inl (Fatal (CollectorStartFailed e), s)"
    using assms(6,7) by (simp add: startCollector_def k3 assms(5) Seconds_pos Let_def)
  then obtain s where "startCollector w ''Project'' MetricsCollectorProject ''project.json''
      (TimeProjects (Scrape (opts s3))) s3 = Inl (Fatal (CollectorStartFailed e), s)" ..
  then have "initMetricCollector w s3 = Inl (Fatal (CollectorStartFailed e), s)"
    by (simp add: initMetricCollector_def)
  then have "main w = Inl (Fatal (CollectorStartFailed e), s)"
    by (simp add: main_def assms(1) 2 3)
  then show ?thesis by simp
qed

lemma variant_fields [simp]:
  "ParseErr worldStartFails = None" "ParsedOpts worldStartFails = opts0"
  "Getenv worldStartFails = (\<lambda>k. [])" "SetenvErr worldStartFails = (\<lambda>k v. None)"
  "DiscoveryUpdate worldStartFails = None"
  "Start worldStartFails = (\<lambda>c. Some ''collector setup failed'')"
  "ParseErr worldServerStops = None" "ParsedOpts worldServerStops = opts0"
  "Getenv worldServerStops = (\<lambda>k. [])" "SetenvErr worldServerStops = (\<lambda>k v. None)"
  "DiscoveryUpdate worldServerStops = None"
  "Start worldServerStops = (\<lambda>c. None)"
  "ListenAndServe worldServerStops = Some ''address already in use''"
  by (simp_all add: worldStartFails_def worldServerStops_def world0_def)

lemma variant_argparser:
  assumes "ParseErr w = None" and "ParsedOpts w = opts0" and "Getenv w = (\<lambda>k. [])"
  shows "initArgparser w (proc0 w) = Inr ((proc0 w)\<lparr>opts := useDefaultScrapeTime opts0\<rparr>)"
proof -
  let ?st = "(proc0 w)\<lparr>opts := opts0\<rparr>"
  have ld: "loadAccessToken w ((proc0 w)\<lparr>opts := ParsedOpts w\<rparr>) = Inr ?st"
    by (simp add: assms(2) no_token_file)
  have cr: "checkCredentials ?st = Inr ?st"
    by (simp add: checkCredentials_def)
  have "initArgparser w (proc0 w) = Inr (?st\<lparr>opts := useDefaultScrapeTime (opts ?st)\<rparr>)"
    by (rule initArgparser_passes [OF assms(1) ld cr]) (simp_all add: proc0_def assms(3))
  then show ?thesis by simp
qed

text \<open>
  Exit statuses of seven runs: help, an unknown flag, no credentials, a malformed query
  filter, a token acquisition that cannot be set up, a collector that cannot be
  started and a listener that returns an error.
\<close>

theorem C7_exit_status_witness:
  "terminated (main worldHelp) = Some (Exit 0)
   \<and> terminated (main worldBadFlag) = Some (Exit 1)
   \<and> map_option exit_status (terminated (main (withOpts optsNoCredentials))) = Some 1
   \<and> map_option exit_status (terminated (main (withOpts (optsQueries [''nouuid''] opts0)))) = Some 1
   \<and> terminated (main worldAzDenied) \<noteq> None
   \<and> map_option exit_status (terminated (main worldAzDenied)) \<noteq> Some 0
   \<and> terminated (main worldStartFails) = Some (Fatal (CollectorStartFailed ''collector setup failed''))
   \<and> exit_status (Fatal (CollectorStartFailed ''collector setup failed'')) \<noteq> 0
   \<and> terminated (main worldServerStops) = Some (Fatal (ServerStopped ''address already in use''))
   \<and> exit_status (Fatal (ServerStopped ''address already in use'')) \<noteq> 0"
proof -
  have 1: "terminated (main worldHelp) = Some (Exit 0)"
    using C7_exit_status [of worldHelp] by simp
  have 2: "terminated (main worldBadFlag) = Some (Exit 1)"
    using C7_exit_status [of worldBadFlag] by simp
  let ?w = "withOpts optsNoCredentials"
  have ld: "loadAccessToken ?w ((proc0 ?w)\<lparr>opts := ParsedOpts ?w\<rparr>) =
      Inr ((proc0 ?w)\<lparr>opts := optsNoCredentials\<rparr>)"
    by (simp add: no_token_file)
  have cr: "AccessToken (AzureDevops (opts ((proc0 ?w)\<lparr>opts := optsNoCredentials\<rparr>))) = []
      \<and> (TenantId (Azure (opts ((proc0 ?w)\<lparr>opts := optsNoCredentials\<rparr>))) = []
         \<or> ClientId (Azure (opts ((proc0 ?w)\<lparr>opts := optsNoCredentials\<rparr>))) = [])"
    by simp
  from C7_exit_status [of ?w] ld cr
  have "\<exists>t. terminated (main ?w) = Some t \<and> exit_status t = 1"
    by (metis withOpts_fields(1))
  then have 3: "map_option exit_status (terminated (main ?w)) = Some 1" by auto
  let ?v = "withOpts (optsQueries [''nouuid''] opts0)"
  have ld': "loadAccessToken ?v ((proc0 ?v)\<lparr>opts := ParsedOpts ?v\<rparr>) =
      Inr ((proc0 ?v)\<lparr>opts := optsQueries [''nouuid''] opts0\<rparr>)"
    by (simp add: no_token_file)
  have q: "\<exists>q \<in> set (QueriesWithProjects (AzureDevops (opts ((proc0 ?v)\<lparr>opts := optsQueries [''nouuid''] opts0\<rparr>)))).
      Count q (CHR ''@'') \<noteq> 1"
    by (simp add: Count_def)
  from C7_exit_status [of ?v] ld' q
  have "\<exists>t. terminated (main ?v) = Some t \<and> exit_status t = 1"
    by (metis withOpts_fields(1))
  then have 4: "map_option exit_status (terminated (main ?v)) = Some 1" by auto
  from initAzureDevOpsConnection_no_auth
    [of "(proc0 worldAzDenied)\<lparr>opts := useDefaultScrapeTime optsNoSecret\<rparr>" worldAzDenied]
  obtain t s where f: "initAzureDevOpsConnection worldAzDenied
      ((proc0 worldAzDenied)\<lparr>opts := useDefaultScrapeTime optsNoSecret\<rparr>) = Inl (t, s)"
    by auto
  from C7_exit_status [of worldAzDenied] worldAzDenied_argparser f
  have "main worldAzDenied = Inl (t, s) \<and> exit_status t \<noteq> 0"
    by blast
  then have 5: "terminated (main worldAzDenied) \<noteq> None
      \<and> map_option exit_status (terminated (main worldAzDenied)) \<noteq> Some 0"
    by simp
  have 6: "terminated (main worldStartFails) = Some (Fatal (CollectorStartFailed ''collector setup failed''))"
    by (rule main_start_fails [OF variant_argparser, where d = 1800000000000])
      (simp_all add: useDefaultScrapeTime_Scrape orDefault_def opts0_def)
  have tb: "\<forall>(n, p, f, t) \<in> set (collectorTable
      (opts ((proc0 worldServerStops)\<lparr>opts := useDefaultScrapeTime opts0\<rparr>))). t \<noteq> None"
    using collectorTable_defaulted [of opts0] by simp
  have 7: "terminated (main worldServerStops) = Some (Fatal (ServerStopped ''address already in use''))"
    by (rule main_server_stops [OF variant_argparser _ _ _ tb]) simp_all
  have 8: "exit_status (Fatal (CollectorStartFailed ''collector setup failed'')) \<noteq> 0"
    using C7_exit_status [of worldStartFails] 6 by simp
  have 9: "exit_status (Fatal (ServerStopped ''address already in use'')) \<noteq> 0"
    using C7_exit_status [of worldServerStops] 7 by simp
  from 1 2 3 4 5 6 7 8 9 show ?thesis by simp
qed

text \<open>
  Claim C8 as stated fails: the process serves, and a \<^verbatim>\<open>HEAD\<close> request to
  \<^verbatim>\<open>/healthz\<close> is answered with an empty body, not with "Ok": the handler writes
  "Ok", and the server eats the writes of a \<^verbatim>\<open>HEAD\<close> request.
\<close>

theorem C8_counterexample:
  "terminated (main world0) = None
   \<and> Path \<lparr>Method = ''HEAD'', Path = ''/healthz''\<rparr> = ''/healthz''
   \<and> ServeHTTP world0 (final (main world0)) None \<lparr>Method = ''HEAD'', Path = ''/healthz''\<rparr> =
       Handled \<lparr>body = [], writeErr = None, eatWrites = True\<rparr> []
   \<and> body \<lparr>body = [], writeErr = None, eatWrites = True\<rparr> \<noteq> ''Ok''"
proof -
  have run: "terminated (main (withOpts opts0)) = None"
    by (rule withOpts_serving(2)) simp_all
  from main_server [OF run] obtain s where
    s: "srv (final (main (withOpts opts0))) = Some s" "Handler s = mux" by blast
  have "ServeHTTP (withOpts opts0) (final (main (withOpts opts0))) None
      \<lparr>Method = ''HEAD'', Path = ''/healthz''\<rparr> =
       Handled \<lparr>body = [], writeErr = None, eatWrites = True\<rparr> []"
    using health_answer [OF s, of "\<lparr>Method = ''HEAD'', Path = ''/healthz''\<rparr>" "withOpts opts0" None]
    by simp
  with run show ?thesis
    by (simp add: world0_withOpts)
qed

text \<open>
  The serving process answers \<^verbatim>\<open>GET /healthz\<close> and \<^verbatim>\<open>POST /readyz\<close> with "Ok", a
  request on a broken connection with a logged error, \<^verbatim>\<open>HEAD /readyz\<close> with an empty
  body, and \<^verbatim>\<open>GET /healthz\<close> in the same way when its collectors are taken away.
\<close>

theorem C8_health_endpoints_answer_Ok_witness:
  "ServeHTTP world0 (final (main world0)) None \<lparr>Method = ''GET'', Path = ''/healthz''\<rparr> =
     Handled \<lparr>body = ''Ok'', writeErr = None, eatWrites = False\<rparr> []
   \<and> ServeHTTP world0 (final (main world0)) None \<lparr>Method = ''POST'', Path = ''/readyz''\<rparr> =
     Handled \<lparr>body = ''Ok'', writeErr = None, eatWrites = False\<rparr> []
   \<and> ServeHTTP world0 (final (main world0)) (Some ''broken pipe'') \<lparr>Method = ''GET'', Path = ''/readyz''\<rparr> =
     Handled \<lparr>body = [], writeErr = Some ''broken pipe'', eatWrites = False\<rparr> [''broken pipe'']
   \<and> ServeHTTP world0 (final (main world0)) None \<lparr>Method = ''HEAD'', Path = ''/readyz''\<rparr> =
     Handled \<lparr>body = [], writeErr = None, eatWrites = True\<rparr> []
   \<and> ServeHTTP worldAzDenied ((final (main world0))\<lparr>collectors := []\<rparr>) None
        \<lparr>Method = ''GET'', Path = ''/healthz''\<rparr> =
      ServeHTTP world0 (final (main world0)) None \<lparr>Method = ''GET'', Path = ''/healthz''\<rparr>"
proof -
  have run: "terminated (main (withOpts opts0)) = None"
    by (rule withOpts_serving(2)) simp_all
  note t = C8_health_endpoints_answer_Ok [OF run]
  have 1: "ServeHTTP (withOpts opts0) (final (main (withOpts opts0))) None \<lparr>Method = ''GET'', Path = ''/healthz''\<rparr> =
     Handled \<lparr>body = ''Ok'', writeErr = None, eatWrites = False\<rparr> []"
    using t [of "\<lparr>Method = ''GET'', Path = ''/healthz''\<rparr>" None] by auto
  have 2: "ServeHTTP (withOpts opts0) (final (main (withOpts opts0))) None \<lparr>Method = ''POST'', Path = ''/readyz''\<rparr> =
     Handled \<lparr>body = ''Ok'', writeErr = None, eatWrites = False\<rparr> []"
    using t [of "\<lparr>Method = ''POST'', Path = ''/readyz''\<rparr>" None] by auto
  have 3: "ServeHTTP (withOpts opts0) (final (main (withOpts opts0))) (Some ''broken pipe'') \<lparr>Method = ''GET'', Path = ''/readyz''\<rparr> =
     Handled \<lparr>body = [], writeErr = Some ''broken pipe'', eatWrites = False\<rparr> [''broken pipe'']"
    using t [of "\<lparr>Method = ''GET'', Path = ''/readyz''\<rparr>" None] by auto
  have 4: "ServeHTTP (withOpts opts0) (final (main (withOpts opts0))) None \<lparr>Method = ''HEAD'', Path = ''/readyz''\<rparr> =
     Handled \<lparr>body = [], writeErr = None, eatWrites = True\<rparr> []"
    using t [of "\<lparr>Method = ''HEAD'', Path = ''/readyz''\<rparr>" None] by auto
  have q: "\<forall>(w' :: (string, string \<times> AzureDevopsOpts) world) st'.
      srv st' = srv (final (main (withOpts opts0))) \<longrightarrow>
      ServeHTTP w' st' None \<lparr>Method = ''GET'', Path = ''/healthz''\<rparr> =
      ServeHTTP (withOpts opts0) (final (main (withOpts opts0))) None \<lparr>Method = ''GET'', Path = ''/healthz''\<rparr>"
  proof -
    have p: "Path \<lparr>Method = ''GET'', Path = ''/healthz''\<rparr> = ''/healthz''
        \<or> Path \<lparr>Method = ''GET'', Path = ''/healthz''\<rparr> = ''/readyz''"
      by simp
    from t [OF p, where connErr = None] show ?thesis by blast
  qed
  have e: "srv ((final (main (withOpts opts0)))\<lparr>collectors := []\<rparr>) = srv (final (main (withOpts opts0)))"
    by simp
  from q e have 5: "ServeHTTP worldAzDenied ((final (main (withOpts opts0)))\<lparr>collectors := []\<rparr>) None
        \<lparr>Method = ''GET'', Path = ''/healthz''\<rparr> =
      ServeHTTP (withOpts opts0) (final (main (withOpts opts0))) None \<lparr>Method = ''GET'', Path = ''/healthz''\<rparr>"
    by blast
  from 1 2 3 4 5 show ?thesis
    by (simp add: world0_withOpts)
qed

text \<open>
  Scrape time 30 minutes, build interval set to 0 and release interval to one minute:
  the two set options keep their values, the unset ones and the summary max-age become
  30 minutes.
\<close>

theorem C9_unset_scrape_times_default_witness:
  "TimeBuild (Scrape (opts (final (initArgparser (withOpts optsBuildOff) (proc0 (withOpts optsBuildOff)))))) = Some 0
   \<and> TimeRelease (Scrape (opts (final (initArgparser (withOpts optsBuildOff) (proc0 (withOpts optsBuildOff)))))) = Some 60000000000
   \<and> TimeProjects (Scrape (opts (final (initArgparser (withOpts optsBuildOff) (proc0 (withOpts optsBuildOff)))))) = Some 1800000000000
   \<and> TimeStats (Scrape (opts (final (initArgparser (withOpts optsBuildOff) (proc0 (withOpts optsBuildOff)))))) = Some 1800000000000
   \<and> SummaryMaxAge (Stats (opts (final (initArgparser (withOpts optsBuildOff) (proc0 (withOpts optsBuildOff)))))) = Some 1800000000000
   \<and> collectors (final (initArgparser (withOpts optsBuildOff) (proc0 (withOpts optsBuildOff)))) = []"
proof -
  let ?w = "withOpts optsBuildOff"
  have a: "initArgparser ?w (proc0 ?w) = Inr ((proc0 ?w)\<lparr>opts := useDefaultScrapeTime optsBuildOff\<rparr>)"
    by (rule withOpts_serving(1)) simp_all
  then have b: "initArgparser ?w (proc0 ?w) = Inr (final (initArgparser ?w (proc0 ?w)))"
    by simp
  have p: "Scrape optsBuildOff = (Scrape opts0)\<lparr>TimeBuild := Some 0, TimeRelease := Some 60000000000\<rparr>"
    "Stats optsBuildOff = Stats opts0"
    by (simp_all add: optsBuildOff_def)
  from C9_unset_scrape_times_default [OF b] show ?thesis
    by (simp add: p opts0_def)
qed

lemma optsTokenFile_sel [simp]:
  "AccessTokenFile (AzureDevops (optsTokenFile f)) = Some f"
  "QueriesWithProjects (AzureDevops (optsTokenFile f)) = []"
  "AccessToken (AzureDevops (optsTokenFile f)) = ''pat''"
  by (simp_all add: optsTokenFile_def opts0_def)

lemma trim_sample: "asciiTrim tokenFileContent = ''s3cr3t''"
  by (simp add: asciiTrim_def asciiSpace_def tokenFileContent_def)

text \<open>
  The token file \<^verbatim>\<open>/run/token\<close> replaces the token \<^verbatim>\<open>pat\<close> of the command line by its
  trimmed content; the missing file \<^verbatim>\<open>/nope\<close> is fatal.
\<close>

theorem C10_token_from_file_witness:
  "AccessToken (AzureDevops (ParsedOpts (withOpts (optsTokenFile ''/run/token'')))) = ''pat''
   \<and> AccessToken (AzureDevops (opts (final (main (withOpts (optsTokenFile ''/run/token'')))))) = ''s3cr3t''
   \<and> map_option auth (AzureDevopsClient (final (main (withOpts (optsTokenFile ''/run/token''))))) =
       Some (AccessTokenAuth ''s3cr3t'')
   \<and> main (withOpts (optsTokenFile ''/nope'')) =
       Inl (Fatal (TokenFileUnreadable ''/nope'' ''no such file or directory''),
            (proc0 (withOpts (optsTokenFile ''/nope'')))\<lparr>opts := optsTokenFile ''/nope''\<rparr>)"
proof -
  let ?w = "withOpts (optsTokenFile ''/run/token'')"
  let ?cfg = "setAccessToken ''s3cr3t'' (optsTokenFile ''/run/token'')"
  have ld: "loadAccessToken ?w ((proc0 ?w)\<lparr>opts := ParsedOpts ?w\<rparr>) = Inr ((proc0 ?w)\<lparr>opts := ?cfg\<rparr>)"
    by (simp add: loadAccessToken_def withOpts_ReadFile trim_sample)
  have run: "terminated (main ?w) = None"
    by (rule world_serving(2) [OF _ ld]) simp_all
  have rd: "ReadFile ?w ''/run/token'' = Inr tokenFileContent"
    by (simp add: withOpts_ReadFile)
  have rd': "ReadFile (withOpts (optsTokenFile ''/nope'')) ''/nope'' = Inl ''no such file or directory''"
    by (simp add: withOpts_ReadFile)
  from C10_token_from_file [of ?w "''/run/token''"] rd run
  have 1: "AccessToken (AzureDevops (opts (final (main ?w)))) = ''s3cr3t''
      \<and> map_option auth (AzureDevopsClient (final (main ?w))) = Some (AccessTokenAuth ''s3cr3t'')"
    by (auto simp: trim_sample)
  from C10_token_from_file [of "withOpts (optsTokenFile ''/nope'')" "''/nope''"] rd'
  have 2: "main (withOpts (optsTokenFile ''/nope'')) =
       Inl (Fatal (TokenFileUnreadable ''/nope'' ''no such file or directory''),
            (proc0 (withOpts (optsTokenFile ''/nope'')))\<lparr>opts := optsTokenFile ''/nope''\<rparr>)"
    by simp
  from 1 2 show ?thesis by simp
qed

end
